theory Spec2Isabelle
  imports Complex_Main
begin

section \<open>The Hercules DJ console driver (herculeslinux.cpp)\<close>

text \<open>
  A shallow embedding of the per-event decode logic of \<^verbatim>\<open>HerculesLinux\<close>. The file holds
  two alternative builds of the class: the libdjconsole build (\<^verbatim>\<open>consoleEvent\<close>, with
  \<^verbatim>\<open>__THOMAS_HERC__\<close> defined at the top of the file) and the original evdev build
  (\<^verbatim>\<open>getNextEvent\<close> and the revised \<^verbatim>\<open>PitchChange\<close>).

  C \<^verbatim>\<open>int\<close> is modelled as \<^typ>\<open>int\<close>: the theorems are about unbounded integers and
  describe the C++ code wherever its \<^verbatim>\<open>int\<close> arithmetic does not overflow (signed overflow
  has no defined wrap-around in C++ to model); the raw values are in 0..255 and the members
  hold small sums and differences of them. A \<^verbatim>\<open>double\<close> is modelled as \<^typ>\<open>real\<close>: the
  values the properties speak of are integers and halves and quarters of small integers,
  exact in binary floating point.
\<close>

subsection \<open>Jog wheel: delta of a wrapping 0..255 counter\<close>

text \<open>
  The same statements stand four times in the source: \<^verbatim>\<open>case LEFT_JOG\<close> and
  \<^verbatim>\<open>case RIGHT_JOG\<close> of \<^verbatim>\<open>consoleEvent\<close> (on \<^verbatim>\<open>m_dJogLeftOld\<close>, \<^verbatim>\<open>m_dJogRightOld\<close>), and
  \<^verbatim>\<open>case kiHerculesLeftJog\<close> and \<^verbatim>\<open>case kiHerculesRightJog\<close> of \<^verbatim>\<open>getNextEvent\<close> (on
  \<^verbatim>\<open>m_iJogLeft\<close>, \<^verbatim>\<open>m_iJogRight\<close>):
  \<^verbatim>\<open>iDiff = 0; if (old>=0) iDiff = second-old;\<close>
\<close>

definition jog_raw_diff :: "int \<Rightarrow> int \<Rightarrow> int" where
  "jog_raw_diff old second = (if old \<ge> 0 then second - old else 0)"

text \<open>\<^verbatim>\<open>if (iDiff<-200) iDiff += 256; else if (iDiff>200) iDiff -= 256;\<close>\<close>

definition jog_rollover :: "int \<Rightarrow> int" where
  "jog_rollover iDiff =
     (if iDiff < - 200 then iDiff + 256
      else if iDiff > 200 then iDiff - 256
      else iDiff)"

text \<open>
  The whole block: the corrected \<^verbatim>\<open>iDiff\<close> and the new stored value (\<^verbatim>\<open>old = second\<close>).
\<close>

definition jog_step :: "int \<Rightarrow> int \<Rightarrow> int \<times> int" where
  "jog_step old second = (jog_rollover (jog_raw_diff old second), second)"

subsection \<open>Pitch: the revised PitchChange (evdev build)\<close>

text \<open>
  \<^verbatim>\<open>double PitchChange(ControlSide, const int ev_value, int &m_iPitchPrevious, int &m_iPitchOffset)\<close>.
  The two reference parameters are passed in and returned; \<^verbatim>\<open>ControlSide\<close> is used by
  commented-out debug output only. The result is (returned double, new
  \<^verbatim>\<open>m_iPitchPrevious\<close>, new \<^verbatim>\<open>m_iPitchOffset\<close>).
\<close>

definition PitchChange :: "int \<Rightarrow> int \<Rightarrow> int \<Rightarrow> real \<times> int \<times> int" where
  "PitchChange ev_value m_iPitchPrevious m_iPitchOffset =
     (let off0 = (if m_iPitchOffset = - 9999 then 127 - ev_value else m_iPitchOffset);
          off1 =
            (if m_iPitchPrevious + off0 = 255 \<and> m_iPitchPrevious < ev_value then 255 - ev_value
             else if m_iPitchPrevious = 255 \<and> ev_value = 0 then 255 + off0
             else if ev_value = 255 \<and> m_iPitchPrevious = 0 \<and> off0 \<ge> 0 then off0 - 255
             else if ev_value < m_iPitchPrevious \<and> m_iPitchPrevious + off0 = 0 then - ev_value
             else off0);
          prev1 = ev_value
      in ((real_of_int (prev1 + off1) - 0.5) / 2, prev1, off1))"

text \<open>
  The branch of the \<^verbatim>\<open>if / else if\<close> chain that the call takes, under the names of the
  chain's (commented-out) debug lines; \<open>Branch_NONE\<close> when no condition holds. The
  conditions are those of \<^const>\<open>PitchChange\<close>, on the offset after the reset.
\<close>

datatype pitch_branch =
    Branch_MAX_ROLLOVER | Branch_MAX | Branch_ROLL_DOWN | Branch_MIN_ROLLDOWN_1 | Branch_NONE

definition PitchChange_branch :: "int \<Rightarrow> int \<Rightarrow> int \<Rightarrow> pitch_branch" where
  "PitchChange_branch ev_value m_iPitchPrevious m_iPitchOffset =
     (let off0 = (if m_iPitchOffset = - 9999 then 127 - ev_value else m_iPitchOffset)
      in if m_iPitchPrevious + off0 = 255 \<and> m_iPitchPrevious < ev_value then Branch_MAX_ROLLOVER
         else if m_iPitchPrevious = 255 \<and> ev_value = 0 then Branch_MAX
         else if ev_value = 255 \<and> m_iPitchPrevious = 0 \<and> off0 \<ge> 0 then Branch_ROLL_DOWN
         else if ev_value < m_iPitchPrevious \<and> m_iPitchPrevious + off0 = 0 then Branch_MIN_ROLLDOWN_1
         else Branch_NONE)"

subsection \<open>The driver's members, its control objects and its effects\<close>

text \<open>
  Modelled from the spec: the constants \<^verbatim>\<open>kiHerculesHeadphoneSplit\<close>, \<^verbatim>\<open>kiHerculesHeadphoneMix\<close>,
  \<^verbatim>\<open>kiHerculesHeadphoneDeckA\<close> and \<^verbatim>\<open>kiHerculesHeadphoneDeckB\<close> that
  \<^verbatim>\<open>m_iHerculesHeadphonesSelection\<close> holds are declared in hercules.h, which is not among
  the source files; the specification (section 3) gives the selector state as an enumeration
  of these four distinct states.
\<close>

datatype headphone_selection =
    kiHerculesHeadphoneSplit
  | kiHerculesHeadphoneMix
  | kiHerculesHeadphoneDeckA
  | kiHerculesHeadphoneDeckB

text \<open>
  The members of \<^verbatim>\<open>HerculesLinux\<close> that the two event handlers read and write (the class
  declaration, in herculeslinux.h and hercules.h, is not among the source files). The members
  with a numeric type hold integers only (\<^verbatim>\<open>-1\<close>, a raw value, a sum of differences), so
  they are \<^typ>\<open>int\<close> here; \<^verbatim>\<open>m_dLeftVolumeOld\<close> and \<^verbatim>\<open>m_dRightVolumeOld\<close> hold halves and
  filter results. \<^verbatim>\<open>m_pRotaryLeft\<close> and \<^verbatim>\<open>m_pRotaryRight\<close> are the two \<^verbatim>\<open>Rotary\<close> filter
  objects (rotary.h is not among the source files either): their state is of an arbitrary
  type \<open>'r\<close> and their methods are parameters of the handlers. The last two fields are what
  \<^verbatim>\<open>m_pControlObjectLeftBtnPlayProxy->get()\<close> and \<^verbatim>\<open>m_pControlObjectRightBtnPlayProxy->get()\<close>
  return.
\<close>

record 'r HerculesLinux =
  m_iPitchLeft :: int
  m_iPitchRight :: int
  m_iPitchOffsetLeft :: int
  m_iPitchOffsetRight :: int
  m_iJogLeft :: int
  m_iJogRight :: int
  m_dJogLeftOld :: int
  m_dJogRightOld :: int
  m_dLeftVolumeOld :: real
  m_dRightVolumeOld :: real
  m_bHeadphoneLeft :: bool
  m_bHeadphoneRight :: bool
  m_bMasterTempoLeft :: bool
  m_bMasterTempoRight :: bool
  m_iHerculesHeadphonesSelection :: headphone_selection
  m_pRotaryLeft :: 'r
  m_pRotaryRight :: 'r
  m_pControlObjectLeftBtnPlayProxy :: real
  m_pControlObjectRightBtnPlayProxy :: real

text \<open>
  The control objects that \<^verbatim>\<open>sendEvent\<close> and \<^verbatim>\<open>sendButtonEvent\<close> are called with: the
  member \<^verbatim>\<open>m_pControlObjectX\<close> is the constructor \<open>X\<close>.
\<close>

datatype control_object =
    LeftVolume | RightVolume | Crossfade
  | LeftBtnPlay | RightBtnPlay
  | LeftBtnPitchBendMinus | LeftBtnPitchBendPlus
  | RightBtnPitchBendMinus | RightBtnPitchBendPlus
  | LeftBtnTrackPrev | LeftBtnTrackNext | RightBtnTrackPrev | RightBtnTrackNext
  | LeftTreble | LeftMiddle | LeftBass | RightTreble | RightMiddle | RightBass
  | LeftBtnCue | RightBtnCue | LeftBtnCueAndStop | RightBtnCueAndStop
  | LeftBtnMasterTempo | RightBtnMasterTempo
  | LeftBtnHeadphone | RightBtnHeadphone
  | LeftPitch | RightPitch | LeftJog | RightJog
  | LeftBtnAutobeat | RightBtnAutobeat

text \<open>
  What a handler does to the outside, in the order of the calls: \<^verbatim>\<open>sendEvent(value, control)\<close>
  (the continuous sink), \<^verbatim>\<open>sendButtonEvent(pressed, control)\<close> (the button sink),
  \<^verbatim>\<open>djc->Leds.setBit(led, on)\<close>, and the log lines of the libdjconsole build: \<^verbatim>\<open>qDebug\<close> with
  a fixed message, \<^verbatim>\<open>qDebug("Button %i = %i", first, second)\<close> of \<^verbatim>\<open>consoleEvent\<close>, and the line
  of its \<^verbatim>\<open>PitchChange\<close>, which carries \<^verbatim>\<open>ControlSide\<close>, \<^verbatim>\<open>pitchAdjustStep\<close> and the new
  \<^verbatim>\<open>m_iPitchPrevious\<close>.
\<close>

datatype effect =
    SendEvent real control_object
  | SendButtonEvent bool control_object
  | LedSetBit int bool
  | QDebug string
  | QDebugButton int int
  | QDebugPitchAdjust string int int

text \<open>The writes to the continuous sink and to the button sink among the effects.\<close>

fun is_sink_write :: "effect \<Rightarrow> bool" where
  "is_sink_write (SendEvent v c) = True"
| "is_sink_write (SendButtonEvent b c) = True"
| "is_sink_write (LedSetBit l b) = False"
| "is_sink_write (QDebug m) = False"
| "is_sink_write (QDebugButton f s) = False"
| "is_sink_write (QDebugPitchAdjust side step pitch) = False"

definition sink_writes :: "effect list \<Rightarrow> effect list" where
  "sink_writes es = filter is_sink_write es"

fun is_log :: "effect \<Rightarrow> bool" where
  "is_log (QDebug m) = True"
| "is_log (QDebugButton f s) = True"
| "is_log (QDebugPitchAdjust side step pitch) = True"
| "is_log (SendEvent v c) = False"
| "is_log (SendButtonEvent b c) = False"
| "is_log (LedSetBit l b) = False"

text \<open>The integer division \<^verbatim>\<open>second/2\<close> of C++, which truncates towards zero.\<close>

definition div2_trunc :: "int \<Rightarrow> int" where
  "div2_trunc n = (if n < 0 then - ((- n) div 2) else n div 2)"

subsection \<open>Pitch: the PitchChange of the libdjconsole build\<close>

text \<open>
  The libdjconsole build has its own, older \<^verbatim>\<open>PitchChange\<close>, with the same signature. With
  \<^verbatim>\<open>__THOMAS_HERC__\<close> defined, \<^verbatim>\<open>pitchAdjustStep\<close> is \<^verbatim>\<open>delta\<close>. The initial call (a negative
  \<^verbatim>\<open>m_iPitchPrevious\<close>) returns without a log line; every other call ends with
  \<^verbatim>\<open>qDebug() << "%s PitchAdjust %i -> new Pitch %i" << ControlSide.data() << pitchAdjustStep << m_iPitchPrevious\<close>.
  The result is (effects, returned double, new \<^verbatim>\<open>m_iPitchPrevious\<close>, new
  \<^verbatim>\<open>m_iPitchOffset\<close>).
\<close>

definition PitchChange_libdjconsole ::
  "string \<Rightarrow> int \<Rightarrow> int \<Rightarrow> int \<Rightarrow> effect list \<times> real \<times> int \<times> int" where
  "PitchChange_libdjconsole ControlSide ev_value m_iPitchPrevious m_iPitchOffset =
     (if m_iPitchPrevious < 0 then ([], real_of_int 64, 64, ev_value)
      else
        (let delta0 = ev_value - m_iPitchOffset;
             delta1 = (if delta0 \<ge> 240 then (255 - delta0) * - 1 else delta0);
             delta2 = (if delta1 \<le> - 240 then 255 + delta1 else delta1);
             off1 = ev_value;
             pitchAdjustStep = delta2;
             prev1 =
               (if (pitchAdjustStep > 0 \<and> m_iPitchPrevious + pitchAdjustStep < 128)
                   \<or> (pitchAdjustStep < 0 \<and> m_iPitchPrevious + pitchAdjustStep > 0)
                then m_iPitchPrevious + pitchAdjustStep
                else if pitchAdjustStep > 0 then 127
                else if pitchAdjustStep < 0 then 0
                else m_iPitchPrevious)
         in ([QDebugPitchAdjust ControlSide pitchAdjustStep prev1],
             real_of_int prev1, prev1, off1)))"

subsection \<open>The libdjconsole build: consoleEvent\<close>

text \<open>
  The event and LED codes are macros of libdjconsole's header, which is not part of the
  repository: the handlers take their values as a parameter \<open>djc\<close>, a table from the
  macro's name to its value. The codes 100 to 103 of the headphone selector are literals
  in the source.
\<close>

datatype djc_code =
    LEFT_PLAY | LEFT_CUE | LEFT_MASTER_TEMPO | LEFT_AUTO_BEAT | LEFT_MONITOR
  | RIGHT_PLAY | RIGHT_CUE | RIGHT_MASTER_TEMPO | RIGHT_AUTO_BEAT | RIGHT_MONITOR
  | LEFT_1 | LEFT_2 | LEFT_3 | RIGHT_1 | RIGHT_2 | RIGHT_3
  | LEFT_FX | LEFT_FX_CUE | LEFT_LOOP | RIGHT_FX | RIGHT_FX_CUE | RIGHT_LOOP
  | LEFT_VOL | RIGHT_VOL | XFADER
  | LEFT_PITCH_DOWN | LEFT_PITCH_UP | RIGHT_PITCH_DOWN | RIGHT_PITCH_UP
  | LEFT_SKIP_BACK | LEFT_SKIP_FORWARD | RIGHT_SKIP_BACK | RIGHT_SKIP_FORWARD
  | RIGHT_HIGH | RIGHT_MID | RIGHT_BASS | LEFT_HIGH | LEFT_MID | LEFT_BASS
  | LEFT_JOG | RIGHT_JOG | LEFT_PITCH | RIGHT_PITCH

text \<open>
  The first \<^verbatim>\<open>switch(first)\<close>: it chooses the LED to set at the end (\<^verbatim>\<open>led\<close>, 0 for none)
  and, for the six sensitivity buttons, sets the jog calibration and three LEDs. The result
  is (\<^verbatim>\<open>led\<close>, effects, new state); \<open>setCalibration n r\<close> is \<^verbatim>\<open>r->setCalibration(n)\<close>.
\<close>

definition first_switch ::
  "(djc_code \<Rightarrow> int) \<Rightarrow> (int \<Rightarrow> 'r \<Rightarrow> 'r) \<Rightarrow> int \<Rightarrow> 'r HerculesLinux
     \<Rightarrow> int \<times> effect list \<times> 'r HerculesLinux" where
  "first_switch djc setCalibration first st =
     (if first = djc LEFT_PLAY \<or> first = djc LEFT_CUE \<or> first = djc LEFT_MASTER_TEMPO
         \<or> first = djc LEFT_AUTO_BEAT \<or> first = djc LEFT_MONITOR
         \<or> first = djc RIGHT_PLAY \<or> first = djc RIGHT_CUE \<or> first = djc RIGHT_MASTER_TEMPO
         \<or> first = djc RIGHT_AUTO_BEAT \<or> first = djc RIGHT_MONITOR
      then (first, [], st)
      else if first = djc LEFT_1 then
        (0, [LedSetBit (djc LEFT_FX) True, LedSetBit (djc LEFT_FX_CUE) False,
             LedSetBit (djc LEFT_LOOP) False],
         st\<lparr>m_pRotaryLeft := setCalibration 512 (m_pRotaryLeft st)\<rparr>)
      else if first = djc LEFT_2 then
        (0, [LedSetBit (djc LEFT_FX) False, LedSetBit (djc LEFT_FX_CUE) True,
             LedSetBit (djc LEFT_LOOP) False],
         st\<lparr>m_pRotaryLeft := setCalibration 256 (m_pRotaryLeft st)\<rparr>)
      else if first = djc LEFT_3 then
        (0, [LedSetBit (djc LEFT_FX) False, LedSetBit (djc LEFT_FX_CUE) False,
             LedSetBit (djc LEFT_LOOP) True],
         st\<lparr>m_pRotaryLeft := setCalibration 64 (m_pRotaryLeft st)\<rparr>)
      else if first = djc RIGHT_1 then
        (0, [LedSetBit (djc RIGHT_FX) True, LedSetBit (djc RIGHT_FX_CUE) False,
             LedSetBit (djc RIGHT_LOOP) False],
         st\<lparr>m_pRotaryRight := setCalibration 512 (m_pRotaryRight st)\<rparr>)
      else if first = djc RIGHT_2 then
        (0, [LedSetBit (djc RIGHT_FX) False, LedSetBit (djc RIGHT_FX_CUE) True,
             LedSetBit (djc RIGHT_LOOP) False],
         st\<lparr>m_pRotaryRight := setCalibration 256 (m_pRotaryRight st)\<rparr>)
      else if first = djc RIGHT_3 then
        (0, [LedSetBit (djc RIGHT_FX) False, LedSetBit (djc RIGHT_FX_CUE) False,
             LedSetBit (djc RIGHT_LOOP) True],
         st\<lparr>m_pRotaryRight := setCalibration 64 (m_pRotaryRight st)\<rparr>)
      else (0, [], st))"

text \<open>
  The statements that the headphone cases repeat:
  \<^verbatim>\<open>sendButtonEvent(true, m_pControlObjectRightBtnHeadphone); m_bHeadphoneRight = !m_bHeadphoneRight;\<close>
  and the same on the left.
\<close>

definition toggle_right :: "'r HerculesLinux \<Rightarrow> effect list \<times> 'r HerculesLinux" where
  "toggle_right st =
     ([SendButtonEvent True RightBtnHeadphone],
      st\<lparr>m_bHeadphoneRight := \<not> m_bHeadphoneRight st\<rparr>)"

definition toggle_left :: "'r HerculesLinux \<Rightarrow> effect list \<times> 'r HerculesLinux" where
  "toggle_left st =
     ([SendButtonEvent True LeftBtnHeadphone],
      st\<lparr>m_bHeadphoneLeft := \<not> m_bHeadphoneLeft st\<rparr>)"

text \<open>
  The four cases of the headphone selector. Each, once its condition holds, stores the
  selection, logs, and tests the right boolean and then the left one, toggling where the
  test succeeds.
\<close>

definition case_103 :: "int \<Rightarrow> 'r HerculesLinux \<Rightarrow> effect list \<times> 'r HerculesLinux" where
  "case_103 second st =
     (if second = 4 then
        (let st1 = st\<lparr>m_iHerculesHeadphonesSelection := kiHerculesHeadphoneSplit\<rparr>;
             (es2, st2) = (if m_bHeadphoneRight st1 then toggle_right st1 else ([], st1));
             (es3, st3) = (if m_bHeadphoneLeft st2 then toggle_left st2 else ([], st2))
         in (QDebug ''Deck SPLIT (mute both)'' # es2 @ es3, st3))
      else ([], st))"

definition case_102 :: "int \<Rightarrow> 'r HerculesLinux \<Rightarrow> effect list \<times> 'r HerculesLinux" where
  "case_102 second st =
     (if second = 8 then
        (let st1 = st\<lparr>m_iHerculesHeadphonesSelection := kiHerculesHeadphoneMix\<rparr>;
             (es2, st2) = (if \<not> m_bHeadphoneRight st1 then toggle_right st1 else ([], st1));
             (es3, st3) = (if \<not> m_bHeadphoneLeft st2 then toggle_left st2 else ([], st2))
         in (QDebug ''Deck MIX'' # es2 @ es3, st3))
      else ([], st))"

definition case_101 :: "int \<Rightarrow> 'r HerculesLinux \<Rightarrow> effect list \<times> 'r HerculesLinux" where
  "case_101 second st =
     (if second = 2 \<and> (m_iHerculesHeadphonesSelection st = kiHerculesHeadphoneDeckA
                        \<or> m_iHerculesHeadphonesSelection st = kiHerculesHeadphoneMix) then
        (let st1 = st\<lparr>m_iHerculesHeadphonesSelection := kiHerculesHeadphoneDeckB\<rparr>;
             (es2, st2) = (if \<not> m_bHeadphoneRight st1 then toggle_right st1 else ([], st1));
             (es3, st3) = (if m_bHeadphoneLeft st2 then toggle_left st2 else ([], st2))
         in (QDebug ''Deck B'' # es2 @ es3, st3))
      else ([], st))"

definition case_100 :: "int \<Rightarrow> 'r HerculesLinux \<Rightarrow> effect list \<times> 'r HerculesLinux" where
  "case_100 second st =
     (if second = 1 \<and> m_iHerculesHeadphonesSelection st = kiHerculesHeadphoneDeckB then
        (let st1 = st\<lparr>m_iHerculesHeadphonesSelection := kiHerculesHeadphoneDeckA\<rparr>;
             (es2, st2) = (if m_bHeadphoneRight st1 then toggle_right st1 else ([], st1));
             (es3, st3) = (if \<not> m_bHeadphoneLeft st2 then toggle_left st2 else ([], st2))
         in (QDebug ''Deck A'' # es2 @ es3, st3))
      else ([], st))"

text \<open>\<^verbatim>\<open>case LEFT_JOG\<close> and \<^verbatim>\<open>case RIGHT_JOG\<close>: the jog block, then the sum.\<close>

definition case_LEFT_JOG :: "int \<Rightarrow> 'r HerculesLinux \<Rightarrow> effect list \<times> 'r HerculesLinux" where
  "case_LEFT_JOG second st =
     (let (iDiff, old) = jog_step (m_dJogLeftOld st) second
      in ([], st\<lparr>m_dJogLeftOld := old, m_iJogLeft := m_iJogLeft st + iDiff\<rparr>))"

definition case_RIGHT_JOG :: "int \<Rightarrow> 'r HerculesLinux \<Rightarrow> effect list \<times> 'r HerculesLinux" where
  "case_RIGHT_JOG second st =
     (let (iDiff, old) = jog_step (m_dJogRightOld st) second
      in ([], st\<lparr>m_dJogRightOld := old, m_iJogRight := m_iJogRight st + iDiff\<rparr>))"

text \<open>
  \<^verbatim>\<open>case LEFT_PITCH\<close> and \<^verbatim>\<open>case RIGHT_PITCH\<close>: \<^verbatim>\<open>PitchChange("Left", ...)\<close>
  (\<^verbatim>\<open>PitchChange("Right", ...)\<close>) runs, with its log line, before \<^verbatim>\<open>sendEvent\<close> writes
  what it returned.
\<close>

definition case_LEFT_PITCH :: "int \<Rightarrow> 'r HerculesLinux \<Rightarrow> effect list \<times> 'r HerculesLinux" where
  "case_LEFT_PITCH second st =
     (let (es, v, prev, off) =
            PitchChange_libdjconsole ''Left'' second (m_iPitchLeft st) (m_iPitchOffsetLeft st)
      in (es @ [SendEvent v LeftPitch], st\<lparr>m_iPitchLeft := prev, m_iPitchOffsetLeft := off\<rparr>))"

definition case_RIGHT_PITCH :: "int \<Rightarrow> 'r HerculesLinux \<Rightarrow> effect list \<times> 'r HerculesLinux" where
  "case_RIGHT_PITCH second st =
     (let (es, v, prev, off) =
            PitchChange_libdjconsole ''Right'' second (m_iPitchRight st) (m_iPitchOffsetRight st)
      in (es @ [SendEvent v RightPitch],
          st\<lparr>m_iPitchRight := prev, m_iPitchOffsetRight := off\<rparr>))"

text \<open>
  The second \<^verbatim>\<open>switch(first)\<close>, its cases in the order of the source (the branch
  \<^verbatim>\<open>#else\<close> of \<^verbatim>\<open>#ifndef __THOMAS_HERC__\<close>). A \<^verbatim>\<open>switch\<close> whose labels are distinct runs
  the one case whose label equals \<^verbatim>\<open>first\<close>, or \<^verbatim>\<open>default\<close>.
\<close>

definition second_switch ::
  "(djc_code \<Rightarrow> int) \<Rightarrow> int \<Rightarrow> int \<Rightarrow> 'r HerculesLinux \<Rightarrow> effect list \<times> 'r HerculesLinux" where
  "second_switch djc first second st =
     (if first = djc LEFT_VOL then ([SendEvent (real_of_int second / 2) LeftVolume], st)
      else if first = djc RIGHT_VOL then ([SendEvent (real_of_int second / 2) RightVolume], st)
      else if first = djc LEFT_PLAY then ([SendButtonEvent True LeftBtnPlay], st)
      else if first = djc RIGHT_PLAY then ([SendButtonEvent True RightBtnPlay], st)
      else if first = djc XFADER then ([SendEvent (real_of_int (second + 1) / 2) Crossfade], st)
      else if first = djc LEFT_PITCH_DOWN then ([SendButtonEvent True LeftBtnPitchBendMinus], st)
      else if first = djc LEFT_PITCH_UP then ([SendButtonEvent True LeftBtnPitchBendPlus], st)
      else if first = djc RIGHT_PITCH_DOWN then ([SendButtonEvent True RightBtnPitchBendMinus], st)
      else if first = djc RIGHT_PITCH_UP then ([SendButtonEvent True RightBtnPitchBendPlus], st)
      else if first = djc LEFT_SKIP_BACK then ([SendButtonEvent True LeftBtnTrackPrev], st)
      else if first = djc LEFT_SKIP_FORWARD then ([SendButtonEvent True LeftBtnTrackNext], st)
      else if first = djc RIGHT_SKIP_BACK then ([SendButtonEvent True RightBtnTrackPrev], st)
      else if first = djc RIGHT_SKIP_FORWARD then ([SendButtonEvent True RightBtnTrackNext], st)
      else if first = djc RIGHT_HIGH then ([SendEvent (real_of_int (div2_trunc second)) RightTreble], st)
      else if first = djc RIGHT_MID then ([SendEvent (real_of_int (div2_trunc second)) RightMiddle], st)
      else if first = djc RIGHT_BASS then ([SendEvent (real_of_int (div2_trunc second)) RightBass], st)
      else if first = djc LEFT_HIGH then ([SendEvent (real_of_int (div2_trunc second)) LeftTreble], st)
      else if first = djc LEFT_MID then ([SendEvent (real_of_int (div2_trunc second)) LeftMiddle], st)
      else if first = djc LEFT_BASS then ([SendEvent (real_of_int (div2_trunc second)) LeftBass], st)
      else if first = djc LEFT_CUE then
        (if m_pControlObjectLeftBtnPlayProxy st \<noteq> 0
         then ([SendButtonEvent True LeftBtnCueAndStop], st)
         else ([SendButtonEvent True LeftBtnCue], st))
      else if first = djc RIGHT_CUE then
        (if m_pControlObjectRightBtnPlayProxy st \<noteq> 0
         then ([SendButtonEvent True RightBtnCueAndStop], st)
         else ([SendButtonEvent True RightBtnCue], st))
      else if first = djc LEFT_MASTER_TEMPO then
        ([SendEvent 0 LeftBtnMasterTempo], st\<lparr>m_bMasterTempoLeft := \<not> m_bMasterTempoLeft st\<rparr>)
      else if first = djc RIGHT_MASTER_TEMPO then
        ([SendEvent 0 RightBtnMasterTempo], st\<lparr>m_bMasterTempoRight := \<not> m_bMasterTempoRight st\<rparr>)
      else if first = djc RIGHT_MONITOR then toggle_right st
      else if first = djc LEFT_MONITOR then toggle_left st
      else if first = 103 then case_103 second st
      else if first = 102 then case_102 second st
      else if first = 101 then case_101 second st
      else if first = 100 then case_100 second st
      else if first = djc LEFT_JOG then case_LEFT_JOG second st
      else if first = djc RIGHT_JOG then case_RIGHT_JOG second st
      else if first = djc LEFT_PITCH then case_LEFT_PITCH second st
      else if first = djc RIGHT_PITCH then case_RIGHT_PITCH second st
      else if first = djc LEFT_AUTO_BEAT then ([SendButtonEvent False LeftBtnAutobeat], st)
      else if first = djc RIGHT_AUTO_BEAT then ([SendButtonEvent False RightBtnAutobeat], st)
      else ([QDebugButton first second], st))"

text \<open>
  \<^verbatim>\<open>void HerculesLinux::consoleEvent(int first, int second)\<close>: the effects, in order, and
  the new state.
\<close>

definition consoleEvent ::
  "(djc_code \<Rightarrow> int) \<Rightarrow> (int \<Rightarrow> 'r \<Rightarrow> 'r) \<Rightarrow> int \<Rightarrow> int \<Rightarrow> 'r HerculesLinux
     \<Rightarrow> effect list \<times> 'r HerculesLinux" where
  "consoleEvent djc setCalibration first second st =
     (if second = 0 then ([LedSetBit first False], st)
      else if first \<noteq> 0 then
        (let ledIsOn = (if second = 0 then False else True);
             (led, es1, st1) = first_switch djc setCalibration first st;
             (es2, st2) = second_switch djc first second st1
         in (es1 @ es2 @ (if led \<noteq> 0 then [LedSetBit led ledIsOn] else []), st2))
      else ([], st))"

text \<open>
  The case labels of the two \<^verbatim>\<open>switch\<close> statements: the macros in the order of the
  source, and for the second \<^verbatim>\<open>switch\<close> the four literals after them. C++ accepts a
  \<^verbatim>\<open>switch\<close> only when its labels are pairwise distinct, so every table \<open>djc\<close> the file
  compiles with satisfies \<open>switch_labels_distinct\<close>.
\<close>

definition first_switch_codes :: "djc_code list" where
  "first_switch_codes =
     [LEFT_PLAY, LEFT_CUE, LEFT_MASTER_TEMPO, LEFT_AUTO_BEAT, LEFT_MONITOR,
      RIGHT_PLAY, RIGHT_CUE, RIGHT_MASTER_TEMPO, RIGHT_AUTO_BEAT, RIGHT_MONITOR,
      LEFT_1, LEFT_2, LEFT_3, RIGHT_1, RIGHT_2, RIGHT_3]"

definition second_switch_codes :: "djc_code list" where
  "second_switch_codes =
     [LEFT_VOL, RIGHT_VOL, LEFT_PLAY, RIGHT_PLAY, XFADER,
      LEFT_PITCH_DOWN, LEFT_PITCH_UP, RIGHT_PITCH_DOWN, RIGHT_PITCH_UP,
      LEFT_SKIP_BACK, LEFT_SKIP_FORWARD, RIGHT_SKIP_BACK, RIGHT_SKIP_FORWARD,
      RIGHT_HIGH, RIGHT_MID, RIGHT_BASS, LEFT_HIGH, LEFT_MID, LEFT_BASS,
      LEFT_CUE, RIGHT_CUE, LEFT_MASTER_TEMPO, RIGHT_MASTER_TEMPO,
      RIGHT_MONITOR, LEFT_MONITOR,
      LEFT_JOG, RIGHT_JOG, LEFT_PITCH, RIGHT_PITCH, LEFT_AUTO_BEAT, RIGHT_AUTO_BEAT]"

definition first_switch_labels :: "(djc_code \<Rightarrow> int) \<Rightarrow> int list" where
  "first_switch_labels djc = map djc first_switch_codes"

definition second_switch_labels :: "(djc_code \<Rightarrow> int) \<Rightarrow> int list" where
  "second_switch_labels djc = map djc second_switch_codes @ [103, 102, 101, 100]"

definition switch_labels_distinct :: "(djc_code \<Rightarrow> int) \<Rightarrow> bool" where
  "switch_labels_distinct djc =
     (distinct (first_switch_labels djc) \<and> distinct (second_switch_labels djc))"

subsection \<open>The evdev build: the absolute-axis events of getNextEvent\<close>

text \<open>
  The codes \<^verbatim>\<open>kiHercules...\<close> of the absolute axes are constants of hercules.h, which is
  not among the source files: the handler takes their values as a parameter \<open>ki\<close>.
\<close>

datatype ki_code =
    kiHerculesLeftTreble | kiHerculesLeftMiddle | kiHerculesLeftBass
  | kiHerculesLeftVolume | kiHerculesLeftPitch | kiHerculesLeftJog
  | kiHerculesRightTreble | kiHerculesRightMiddle | kiHerculesRightBass
  | kiHerculesRightVolume | kiHerculesRightPitch | kiHerculesRightJog
  | kiHerculesCrossfade

text \<open>
  \<^verbatim>\<open>double v = ((ev.value+1)/(4.- ((ev.value>((7/8.)*256))*((ev.value-((7/8.)*256))*1/16.))));\<close>
  over the reals (the division is not exact in floating point; no property below speaks
  of this value).
\<close>

definition treble_mid_bass_value :: "int \<Rightarrow> real" where
  "treble_mid_bass_value ev_value =
     real_of_int (ev_value + 1)
     / (4 - (if real_of_int ev_value > (7 / 8) * 256 then 1 else 0)
            * ((real_of_int ev_value - (7 / 8) * 256) * 1 / 16))"

text \<open>
  \<^verbatim>\<open>case kiHerculesLeftJog\<close> and \<^verbatim>\<open>case kiHerculesRightJog\<close>: the jog block, the filter on
  \<^verbatim>\<open>(double)iDiff/16.\<close>, the store of \<^verbatim>\<open>ev.value\<close>, and the write of the filtered value.
  \<open>rotary_filter x r\<close> is \<^verbatim>\<open>r->filter(x)\<close>: the value returned and the filter's new state.
\<close>

definition case_kiHerculesLeftJog ::
  "(real \<Rightarrow> 'r \<Rightarrow> real \<times> 'r) \<Rightarrow> int \<Rightarrow> 'r HerculesLinux \<Rightarrow> effect list \<times> 'r HerculesLinux" where
  "case_kiHerculesLeftJog rotary_filter ev_value st =
     (let (iDiff, old) = jog_step (m_iJogLeft st) ev_value;
          (dDiff, r) = rotary_filter (real_of_int iDiff / 16) (m_pRotaryLeft st)
      in ([SendEvent dDiff LeftJog], st\<lparr>m_pRotaryLeft := r, m_iJogLeft := old\<rparr>))"

definition case_kiHerculesRightJog ::
  "(real \<Rightarrow> 'r \<Rightarrow> real \<times> 'r) \<Rightarrow> int \<Rightarrow> 'r HerculesLinux \<Rightarrow> effect list \<times> 'r HerculesLinux" where
  "case_kiHerculesRightJog rotary_filter ev_value st =
     (let (iDiff, old) = jog_step (m_iJogRight st) ev_value;
          (dDiff, r) = rotary_filter (real_of_int iDiff / 16) (m_pRotaryRight st)
      in ([SendEvent dDiff RightJog], st\<lparr>m_pRotaryRight := r, m_iJogRight := old\<rparr>))"

text \<open>
  \<^verbatim>\<open>case EV_ABS\<close> of \<^verbatim>\<open>getNextEvent\<close>, entered when \<^verbatim>\<open>select\<close> reports the descriptor
  readable, \<^verbatim>\<open>read\<close> returns a whole \<^verbatim>\<open>input_event\<close> and its type is \<^verbatim>\<open>EV_ABS\<close>: the inner
  \<^verbatim>\<open>switch (ev.code)\<close>, which has no \<^verbatim>\<open>default\<close>.
\<close>

definition getNextEvent_EV_ABS ::
  "(ki_code \<Rightarrow> int) \<Rightarrow> (real \<Rightarrow> 'r \<Rightarrow> real \<times> 'r) \<Rightarrow> int \<Rightarrow> int \<Rightarrow> 'r HerculesLinux
     \<Rightarrow> effect list \<times> 'r HerculesLinux" where
  "getNextEvent_EV_ABS ki rotary_filter ev_code ev_value st =
     (let v = treble_mid_bass_value ev_value in
      if ev_code = ki kiHerculesLeftTreble then ([SendEvent v LeftTreble], st)
      else if ev_code = ki kiHerculesLeftMiddle then ([SendEvent v LeftMiddle], st)
      else if ev_code = ki kiHerculesLeftBass then ([SendEvent v LeftBass], st)
      else if ev_code = ki kiHerculesLeftVolume then
        ([SendEvent (real_of_int ev_value / 2) LeftVolume],
         st\<lparr>m_dLeftVolumeOld := real_of_int ev_value / 2\<rparr>)
      else if ev_code = ki kiHerculesLeftPitch then
        (let (p, prev, off) = PitchChange ev_value (m_iPitchLeft st) (m_iPitchOffsetLeft st)
         in ([SendEvent p LeftPitch], st\<lparr>m_iPitchLeft := prev, m_iPitchOffsetLeft := off\<rparr>))
      else if ev_code = ki kiHerculesLeftJog then case_kiHerculesLeftJog rotary_filter ev_value st
      else if ev_code = ki kiHerculesRightTreble then ([SendEvent v RightTreble], st)
      else if ev_code = ki kiHerculesRightMiddle then ([SendEvent v RightMiddle], st)
      else if ev_code = ki kiHerculesRightBass then ([SendEvent v RightBass], st)
      else if ev_code = ki kiHerculesRightVolume then
        ([SendEvent (real_of_int ev_value / 2) RightVolume],
         st\<lparr>m_dRightVolumeOld := real_of_int ev_value / 2\<rparr>)
      else if ev_code = ki kiHerculesRightPitch then
        (let (p, prev, off) = PitchChange ev_value (m_iPitchRight st) (m_iPitchOffsetRight st)
         in ([SendEvent p RightPitch], st\<lparr>m_iPitchRight := prev, m_iPitchOffsetRight := off\<rparr>))
      else if ev_code = ki kiHerculesRightJog then case_kiHerculesRightJog rotary_filter ev_value st
      else if ev_code = ki kiHerculesCrossfade then
        ([SendEvent (real_of_int (ev_value + 1) / 2) Crossfade], st)
      else ([], st))"

text \<open>The case labels of \<^verbatim>\<open>switch (ev.code)\<close>, which C++ requires to be distinct.\<close>

definition EV_ABS_codes :: "ki_code list" where
  "EV_ABS_codes =
     [kiHerculesLeftTreble, kiHerculesLeftMiddle, kiHerculesLeftBass,
      kiHerculesLeftVolume, kiHerculesLeftPitch, kiHerculesLeftJog,
      kiHerculesRightTreble, kiHerculesRightMiddle, kiHerculesRightBass,
      kiHerculesRightVolume, kiHerculesRightPitch, kiHerculesRightJog,
      kiHerculesCrossfade]"

definition EV_ABS_labels :: "(ki_code \<Rightarrow> int) \<Rightarrow> int list" where
  "EV_ABS_labels ki = map ki EV_ABS_codes"

subsection \<open>The specification's DeltaUnwrapper and PitchOffsetTracker\<close>

text \<open>
  Written from the words of the specification (sections 4.1 and 4.3), to be compared with
  the definitions above. \<open>None\<close> is the specification's "none" / "uninitialized".
\<close>

definition spec_unwrap :: "int option \<Rightarrow> int \<Rightarrow> int \<times> int" where
  "spec_unwrap previous current =
     (case previous of
        None \<Rightarrow> (0, current)
      | Some p \<Rightarrow>
          (let raw_delta = current - p
           in (if raw_delta < - 200 then raw_delta + 256
               else if raw_delta > 200 then raw_delta - 256
               else raw_delta,
               current)))"

text \<open>How the code stores "none": a negative value (the constructor stores \<open>-1\<close>).\<close>

definition stored_previous :: "int \<Rightarrow> int option" where
  "stored_previous old = (if old < 0 then None else Some old)"

datatype rollover_rule = Rule1 | Rule2 | Rule3 | Rule4

fun rule_applies :: "rollover_rule \<Rightarrow> int \<Rightarrow> int \<Rightarrow> int \<Rightarrow> bool" where
  "rule_applies Rule1 previous offset raw = (previous + offset = 255 \<and> previous < raw)"
| "rule_applies Rule2 previous offset raw = (previous = 255 \<and> raw = 0)"
| "rule_applies Rule3 previous offset raw = (raw = 255 \<and> previous = 0 \<and> offset \<ge> 0)"
| "rule_applies Rule4 previous offset raw = (raw < previous \<and> previous + offset = 0)"

fun rule_offset :: "rollover_rule \<Rightarrow> int \<Rightarrow> int \<Rightarrow> int" where
  "rule_offset Rule1 offset raw = 255 - raw"
| "rule_offset Rule2 offset raw = 255 + offset"
| "rule_offset Rule3 offset raw = offset - 255"
| "rule_offset Rule4 offset raw = - raw"

text \<open>The rule that fires: the first of the four, in the listed order, that applies.\<close>

definition fired_rule :: "int \<Rightarrow> int \<Rightarrow> int \<Rightarrow> rollover_rule option" where
  "fired_rule previous offset raw =
     find (\<lambda>r. rule_applies r previous offset raw) [Rule1, Rule2, Rule3, Rule4]"

definition spec_update :: "int \<Rightarrow> int \<Rightarrow> int option \<Rightarrow> real \<times> int \<times> int" where
  "spec_update raw previous offset =
     (let offset0 = (case offset of None \<Rightarrow> 127 - raw | Some off \<Rightarrow> off);
          offset1 = (case fired_rule previous offset0 raw of
                       None \<Rightarrow> offset0
                     | Some r \<Rightarrow> rule_offset r offset0 raw);
          previous1 = raw
      in ((real_of_int (previous1 + offset1) - 1 / 2) / 2, previous1, offset1))"

text \<open>How the code stores an uninitialized offset: the sentinel \<open>-9999\<close>.\<close>

definition stored_offset :: "int \<Rightarrow> int option" where
  "stored_offset off = (if off = - 9999 then None else Some off)"

definition branch_of_rule :: "rollover_rule option \<Rightarrow> pitch_branch" where
  "branch_of_rule r =
     (case r of
        None \<Rightarrow> Branch_NONE
      | Some Rule1 \<Rightarrow> Branch_MAX_ROLLOVER
      | Some Rule2 \<Rightarrow> Branch_MAX
      | Some Rule3 \<Rightarrow> Branch_ROLL_DOWN
      | Some Rule4 \<Rightarrow> Branch_MIN_ROLLDOWN_1)"

text \<open>
  The specification's HeadphoneDeckSelector (section 4.4): the target state of the
  transition that an event (control_id, value) makes in the current state, \<open>None\<close> when
  the event makes none.
\<close>

definition spec_transition ::
  "int \<times> int \<Rightarrow> headphone_selection \<Rightarrow> headphone_selection option" where
  "spec_transition ev current =
     (if ev = (103, 4) then Some kiHerculesHeadphoneSplit
      else if ev = (102, 8) then Some kiHerculesHeadphoneMix
      else if ev = (101, 2) \<and> current \<in> {kiHerculesHeadphoneDeckA, kiHerculesHeadphoneMix}
        then Some kiHerculesHeadphoneDeckB
      else if ev = (100, 1) \<and> current = kiHerculesHeadphoneDeckB
        then Some kiHerculesHeadphoneDeckA
      else None)"

definition spec_next_state ::
  "int \<times> int \<Rightarrow> headphone_selection \<Rightarrow> headphone_selection" where
  "spec_next_state ev current =
     (case spec_transition ev current of None \<Rightarrow> current | Some target \<Rightarrow> target)"

text \<open>
  The configuration a state requires: SPLIT mutes both, MIX enables both, DECK_A enables
  left and disables right, DECK_B enables right and disables left.
\<close>

fun required_left :: "headphone_selection \<Rightarrow> bool" where
  "required_left kiHerculesHeadphoneSplit = False"
| "required_left kiHerculesHeadphoneMix = True"
| "required_left kiHerculesHeadphoneDeckA = True"
| "required_left kiHerculesHeadphoneDeckB = False"

fun required_right :: "headphone_selection \<Rightarrow> bool" where
  "required_right kiHerculesHeadphoneSplit = False"
| "required_right kiHerculesHeadphoneMix = True"
| "required_right kiHerculesHeadphoneDeckA = False"
| "required_right kiHerculesHeadphoneDeckB = True"

text \<open>
  The decoder state the specification lists: the jog previous values and accumulators, the
  pitch previous values and offsets, the headphone selector state and the two booleans.
\<close>

definition decoder_state ::
  "'r HerculesLinux
     \<Rightarrow> (int \<times> int \<times> int \<times> int) \<times> (int \<times> int \<times> int \<times> int) \<times> headphone_selection \<times> bool \<times> bool" where
  "decoder_state st =
     ((m_dJogLeftOld st, m_dJogRightOld st, m_iJogLeft st, m_iJogRight st),
      (m_iPitchLeft st, m_iPitchRight st, m_iPitchOffsetLeft st, m_iPitchOffsetRight st),
      m_iHerculesHeadphonesSelection st, m_bHeadphoneLeft st, m_bHeadphoneRight st)"

subsection \<open>Concrete instances\<close>

text \<open>
  A table of codes with distinct nonzero values away from 100..103, a table of axis codes,
  and a driver state, for the closed instances of the theorems below. The state is the one
  the libdjconsole constructor builds where it sets a member (it stores the integer 1 as
  the headphone selection, whose meaning is in the missing hercules.h: MIX is taken here);
  the Rotary objects are reduced to their calibration.
\<close>

definition example_djc :: "djc_code \<Rightarrow> int" where
  "example_djc c =
     (case c of
        LEFT_PLAY \<Rightarrow> 1 | LEFT_CUE \<Rightarrow> 2 | LEFT_MASTER_TEMPO \<Rightarrow> 3 | LEFT_AUTO_BEAT \<Rightarrow> 4
      | LEFT_MONITOR \<Rightarrow> 5 | RIGHT_PLAY \<Rightarrow> 6 | RIGHT_CUE \<Rightarrow> 7 | RIGHT_MASTER_TEMPO \<Rightarrow> 8
      | RIGHT_AUTO_BEAT \<Rightarrow> 9 | RIGHT_MONITOR \<Rightarrow> 10
      | LEFT_1 \<Rightarrow> 11 | LEFT_2 \<Rightarrow> 12 | LEFT_3 \<Rightarrow> 13 | RIGHT_1 \<Rightarrow> 14 | RIGHT_2 \<Rightarrow> 15
      | RIGHT_3 \<Rightarrow> 16
      | LEFT_FX \<Rightarrow> 17 | LEFT_FX_CUE \<Rightarrow> 18 | LEFT_LOOP \<Rightarrow> 19 | RIGHT_FX \<Rightarrow> 20
      | RIGHT_FX_CUE \<Rightarrow> 21 | RIGHT_LOOP \<Rightarrow> 22
      | LEFT_VOL \<Rightarrow> 23 | RIGHT_VOL \<Rightarrow> 24 | XFADER \<Rightarrow> 25
      | LEFT_PITCH_DOWN \<Rightarrow> 26 | LEFT_PITCH_UP \<Rightarrow> 27 | RIGHT_PITCH_DOWN \<Rightarrow> 28
      | RIGHT_PITCH_UP \<Rightarrow> 29
      | LEFT_SKIP_BACK \<Rightarrow> 30 | LEFT_SKIP_FORWARD \<Rightarrow> 31 | RIGHT_SKIP_BACK \<Rightarrow> 32
      | RIGHT_SKIP_FORWARD \<Rightarrow> 33
      | RIGHT_HIGH \<Rightarrow> 34 | RIGHT_MID \<Rightarrow> 35 | RIGHT_BASS \<Rightarrow> 36 | LEFT_HIGH \<Rightarrow> 37
      | LEFT_MID \<Rightarrow> 38 | LEFT_BASS \<Rightarrow> 39
      | LEFT_JOG \<Rightarrow> 40 | RIGHT_JOG \<Rightarrow> 41 | LEFT_PITCH \<Rightarrow> 42 | RIGHT_PITCH \<Rightarrow> 43)"

definition example_ki :: "ki_code \<Rightarrow> int" where
  "example_ki c =
     (case c of
        kiHerculesLeftTreble \<Rightarrow> 1 | kiHerculesLeftMiddle \<Rightarrow> 2 | kiHerculesLeftBass \<Rightarrow> 3
      | kiHerculesLeftVolume \<Rightarrow> 4 | kiHerculesLeftPitch \<Rightarrow> 5 | kiHerculesLeftJog \<Rightarrow> 6
      | kiHerculesRightTreble \<Rightarrow> 7 | kiHerculesRightMiddle \<Rightarrow> 8 | kiHerculesRightBass \<Rightarrow> 9
      | kiHerculesRightVolume \<Rightarrow> 10 | kiHerculesRightPitch \<Rightarrow> 11 | kiHerculesRightJog \<Rightarrow> 12
      | kiHerculesCrossfade \<Rightarrow> 13)"

definition example_state :: "int HerculesLinux" where
  "example_state =
     \<lparr>m_iPitchLeft = - 1, m_iPitchRight = - 1,
      m_iPitchOffsetLeft = 0, m_iPitchOffsetRight = 0,
      m_iJogLeft = 0, m_iJogRight = 0,
      m_dJogLeftOld = - 1, m_dJogRightOld = - 1,
      m_dLeftVolumeOld = 0, m_dRightVolumeOld = 0,
      m_bHeadphoneLeft = False, m_bHeadphoneRight = False,
      m_bMasterTempoLeft = False, m_bMasterTempoRight = False,
      m_iHerculesHeadphonesSelection = kiHerculesHeadphoneMix,
      m_pRotaryLeft = 64, m_pRotaryRight = 64,
      m_pControlObjectLeftBtnPlayProxy = 0, m_pControlObjectRightBtnPlayProxy = 0\<rparr>"

definition example_setCalibration :: "int \<Rightarrow> int \<Rightarrow> int" where
  "example_setCalibration n r = n"

definition example_filter :: "real \<Rightarrow> int \<Rightarrow> real \<times> int" where
  "example_filter x r = (x / real_of_int r, r)"

section \<open>Properties\<close>

subsection \<open>The case labels\<close>

text \<open>
  Distinct labels: two macros of a \<^verbatim>\<open>switch\<close> have the same value only when they are the
  same macro, and no macro of the second \<^verbatim>\<open>switch\<close> has the value of a literal label.
\<close>

lemma distinct_map_eq_iff:
  "distinct (map f xs) \<Longrightarrow> a \<in> set xs \<Longrightarrow> b \<in> set xs \<Longrightarrow> (f a = f b) = (a = b)"
  by (auto simp add: distinct_map inj_on_def)

lemma second_switch_code_eq_iff:
  assumes "switch_labels_distinct djc"
    and "a \<in> set second_switch_codes" and "b \<in> set second_switch_codes"
  shows "(djc a = djc b) = (a = b)"
proof -
  have "distinct (map djc second_switch_codes)"
    using assms(1) by (simp add: switch_labels_distinct_def second_switch_labels_def)
  then show ?thesis
    using assms(2,3) by (rule distinct_map_eq_iff)
qed

lemma second_switch_code_not_literal:
  assumes "switch_labels_distinct djc" and "a \<in> set second_switch_codes"
  shows "djc a \<noteq> 103 \<and> djc a \<noteq> 102 \<and> djc a \<noteq> 101 \<and> djc a \<noteq> 100"
  using assms by (auto simp add: switch_labels_distinct_def second_switch_labels_def)

lemma EV_ABS_code_eq_iff:
  assumes "distinct (EV_ABS_labels ki)"
    and "a \<in> set EV_ABS_codes" and "b \<in> set EV_ABS_codes"
  shows "(ki a = ki b) = (a = b)"
  using assms unfolding EV_ABS_labels_def by (rule distinct_map_eq_iff)

subsection \<open>The two switch statements\<close>

text \<open>
  The first \<^verbatim>\<open>switch\<close> writes LEDs and calibrations only.
\<close>

lemma first_switch_decoder_state:
  "decoder_state (snd (snd (first_switch djc sc first st))) = decoder_state st"
  by (simp add: first_switch_def decoder_state_def)

lemma first_switch_headphones:
  "m_iHerculesHeadphonesSelection (snd (snd (first_switch djc sc first st))) = m_iHerculesHeadphonesSelection st
   \<and> m_bHeadphoneLeft (snd (snd (first_switch djc sc first st))) = m_bHeadphoneLeft st
   \<and> m_bHeadphoneRight (snd (snd (first_switch djc sc first st))) = m_bHeadphoneRight st"
  by (simp add: first_switch_def)

lemma first_switch_no_sink_write:
  "sink_writes (fst (snd (first_switch djc sc first st))) = []"
  by (simp add: first_switch_def sink_writes_def)

lemma first_switch_no_log:
  "filter is_log (fst (snd (first_switch djc sc first st))) = []"
  by (simp add: first_switch_def)

lemma first_switch_no_button:
  "SendButtonEvent b c \<notin> set (fst (snd (first_switch djc sc first st)))"
  by (simp add: first_switch_def)

lemma first_switch_unlabelled:
  "first \<notin> set (first_switch_labels djc) \<Longrightarrow> first_switch djc sc first st = (0, [], st)"
  by (simp add: first_switch_def first_switch_labels_def first_switch_codes_def)

text \<open>
  An event with a nonzero code and a nonzero value runs both \<^verbatim>\<open>switch\<close> statements and
  then sets the chosen LED.
\<close>

lemma sink_writes_append: "sink_writes (xs @ ys) = sink_writes xs @ sink_writes ys"
  by (simp add: sink_writes_def)

lemma consoleEvent_dispatch:
  assumes "second \<noteq> 0" "first \<noteq> 0" "first_switch djc sc first st = (led, es1, st1)"
  shows "consoleEvent djc sc first second st =
           (es1 @ fst (second_switch djc first second st1)
              @ (if led \<noteq> 0 then [LedSetBit led True] else []),
            snd (second_switch djc first second st1))"
  using assms by (simp add: consoleEvent_def split_beta)

lemma consoleEvent_sink_writes:
  assumes "second \<noteq> 0" "first \<noteq> 0"
  shows "sink_writes (fst (consoleEvent djc sc first second st)) =
           sink_writes (fst (second_switch djc first second (snd (snd (first_switch djc sc first st)))))"
proof -
  obtain led es1 st1 where fs: "first_switch djc sc first st = (led, es1, st1)"
    by (cases "first_switch djc sc first st") auto
  have es1: "sink_writes es1 = []"
    using first_switch_no_sink_write [of djc sc first st] by (simp add: fs)
  show ?thesis
    by (simp add: consoleEvent_dispatch [OF assms fs] sink_writes_append es1 fs)
      (simp add: sink_writes_def)
qed

text \<open>
  The cases that the second \<^verbatim>\<open>switch\<close> selects.
\<close>

lemma second_switch_103:
  "switch_labels_distinct djc \<Longrightarrow> second_switch djc 103 second st = case_103 second st"
  using second_switch_code_not_literal [of djc]
  by (simp add: second_switch_codes_def second_switch_def)

lemma second_switch_102:
  "switch_labels_distinct djc \<Longrightarrow> second_switch djc 102 second st = case_102 second st"
  using second_switch_code_not_literal [of djc]
  by (simp add: second_switch_codes_def second_switch_def)

lemma second_switch_101:
  "switch_labels_distinct djc \<Longrightarrow> second_switch djc 101 second st = case_101 second st"
  using second_switch_code_not_literal [of djc]
  by (simp add: second_switch_codes_def second_switch_def)

lemma second_switch_100:
  "switch_labels_distinct djc \<Longrightarrow> second_switch djc 100 second st = case_100 second st"
  using second_switch_code_not_literal [of djc]
  by (simp add: second_switch_codes_def second_switch_def)

lemma second_switch_LEFT_VOL:
  "second_switch djc (djc LEFT_VOL) second st = ([SendEvent (real_of_int second / 2) LeftVolume], st)"
  by (simp add: second_switch_def)

lemma second_switch_RIGHT_VOL:
  "switch_labels_distinct djc \<Longrightarrow>
   second_switch djc (djc RIGHT_VOL) second st = ([SendEvent (real_of_int second / 2) RightVolume], st)"
  by (simp add: second_switch_code_eq_iff second_switch_codes_def second_switch_def)

lemma second_switch_XFADER:
  "switch_labels_distinct djc \<Longrightarrow>
   second_switch djc (djc XFADER) second st
     = ([SendEvent (real_of_int (second + 1) / 2) Crossfade], st)"
  by (simp add: second_switch_code_eq_iff second_switch_codes_def second_switch_def)

lemma second_switch_LEFT_JOG:
  "switch_labels_distinct djc \<Longrightarrow>
   second_switch djc (djc LEFT_JOG) second st = case_LEFT_JOG second st"
  using second_switch_code_not_literal [of djc LEFT_JOG]
  by (simp add: second_switch_code_eq_iff second_switch_codes_def second_switch_def)

lemma second_switch_RIGHT_JOG:
  "switch_labels_distinct djc \<Longrightarrow>
   second_switch djc (djc RIGHT_JOG) second st = case_RIGHT_JOG second st"
  using second_switch_code_not_literal [of djc RIGHT_JOG]
  by (simp add: second_switch_code_eq_iff second_switch_codes_def second_switch_def)

lemma EV_ABS_jog:
  assumes "distinct (EV_ABS_labels ki)"
  shows "getNextEvent_EV_ABS ki flt (ki kiHerculesLeftJog) ev_value st
           = case_kiHerculesLeftJog flt ev_value st"
    and "getNextEvent_EV_ABS ki flt (ki kiHerculesRightJog) ev_value st
           = case_kiHerculesRightJog flt ev_value st"
  using assms
  by (simp_all add: EV_ABS_code_eq_iff EV_ABS_codes_def getNextEvent_EV_ABS_def Let_def)

lemma jog_cases_decoder_state:
  assumes "decoder_state st1 = decoder_state st"
  shows "decoder_state (snd (case_LEFT_JOG second st1)) =
           decoder_state (st\<lparr>m_dJogLeftOld := second,
             m_iJogLeft := m_iJogLeft st
               + fst (spec_unwrap (stored_previous (m_dJogLeftOld st)) second)\<rparr>)"
    and "decoder_state (snd (case_RIGHT_JOG second st1)) =
           decoder_state (st\<lparr>m_dJogRightOld := second,
             m_iJogRight := m_iJogRight st
               + fst (spec_unwrap (stored_previous (m_dJogRightOld st)) second)\<rparr>)"
    and "fst (case_LEFT_JOG second st1) = []" and "fst (case_RIGHT_JOG second st1) = []"
  using assms
  by (simp_all add: decoder_state_def case_LEFT_JOG_def case_RIGHT_JOG_def jog_step_def
      jog_raw_diff_def jog_rollover_def spec_unwrap_def stored_previous_def Let_def)

lemma consoleEvent_jog:
  assumes "switch_labels_distinct djc" and "second \<noteq> 0"
  shows "djc LEFT_JOG \<noteq> 0 \<Longrightarrow>
           sink_writes (fst (consoleEvent djc sc (djc LEFT_JOG) second st)) = []
           \<and> decoder_state (snd (consoleEvent djc sc (djc LEFT_JOG) second st)) =
               decoder_state (st\<lparr>m_dJogLeftOld := second,
                 m_iJogLeft := m_iJogLeft st
                   + fst (spec_unwrap (stored_previous (m_dJogLeftOld st)) second)\<rparr>)"
    and "djc RIGHT_JOG \<noteq> 0 \<Longrightarrow>
           sink_writes (fst (consoleEvent djc sc (djc RIGHT_JOG) second st)) = []
           \<and> decoder_state (snd (consoleEvent djc sc (djc RIGHT_JOG) second st)) =
               decoder_state (st\<lparr>m_dJogRightOld := second,
                 m_iJogRight := m_iJogRight st
                   + fst (spec_unwrap (stored_previous (m_dJogRightOld st)) second)\<rparr>)"
proof -
  show "sink_writes (fst (consoleEvent djc sc (djc LEFT_JOG) second st)) = []
           \<and> decoder_state (snd (consoleEvent djc sc (djc LEFT_JOG) second st)) =
               decoder_state (st\<lparr>m_dJogLeftOld := second,
                 m_iJogLeft := m_iJogLeft st
                   + fst (spec_unwrap (stored_previous (m_dJogLeftOld st)) second)\<rparr>)"
    if nz: "djc LEFT_JOG \<noteq> 0"
  proof -
    obtain led es1 st1 where fs: "first_switch djc sc (djc LEFT_JOG) st = (led, es1, st1)"
      by (cases "first_switch djc sc (djc LEFT_JOG) st") auto
    have es1: "sink_writes es1 = []"
      using first_switch_no_sink_write [of djc sc "djc LEFT_JOG" st] by (simp add: fs)
    have dec: "decoder_state st1 = decoder_state st"
      using first_switch_decoder_state [of djc sc "djc LEFT_JOG" st] by (simp add: fs)
    show ?thesis
      by (simp add: consoleEvent_dispatch [OF assms(2) nz fs] second_switch_LEFT_JOG [OF assms(1)]
          sink_writes_append es1 jog_cases_decoder_state [OF dec])
        (simp add: sink_writes_def)
  qed
  show "sink_writes (fst (consoleEvent djc sc (djc RIGHT_JOG) second st)) = []
           \<and> decoder_state (snd (consoleEvent djc sc (djc RIGHT_JOG) second st)) =
               decoder_state (st\<lparr>m_dJogRightOld := second,
                 m_iJogRight := m_iJogRight st
                   + fst (spec_unwrap (stored_previous (m_dJogRightOld st)) second)\<rparr>)"
    if nz: "djc RIGHT_JOG \<noteq> 0"
  proof -
    obtain led es1 st1 where fs: "first_switch djc sc (djc RIGHT_JOG) st = (led, es1, st1)"
      by (cases "first_switch djc sc (djc RIGHT_JOG) st") auto
    have es1: "sink_writes es1 = []"
      using first_switch_no_sink_write [of djc sc "djc RIGHT_JOG" st] by (simp add: fs)
    have dec: "decoder_state st1 = decoder_state st"
      using first_switch_decoder_state [of djc sc "djc RIGHT_JOG" st] by (simp add: fs)
    show ?thesis
      by (simp add: consoleEvent_dispatch [OF assms(2) nz fs] second_switch_RIGHT_JOG [OF assms(1)]
          sink_writes_append es1 jog_cases_decoder_state [OF dec])
        (simp add: sink_writes_def)
  qed
qed

lemma second_switch_default:
  "first \<notin> set (second_switch_labels djc) \<Longrightarrow>
   second_switch djc first second st = ([QDebugButton first second], st)"
  by (simp add: second_switch_labels_def second_switch_codes_def second_switch_def)

lemma PitchChange_libdjconsole_no_button:
  "SendButtonEvent b c \<notin> set (fst (PitchChange_libdjconsole side ev_value prev off))"
  by (simp add: PitchChange_libdjconsole_def Let_def)

lemma second_switch_release:
  assumes "SendButtonEvent False c \<in> set (fst (second_switch djc first second st))"
  shows "(c = LeftBtnAutobeat \<and> first = djc LEFT_AUTO_BEAT)
       \<or> (c = RightBtnAutobeat \<and> first = djc RIGHT_AUTO_BEAT)"
  using assms
  by (simp add: second_switch_def toggle_left_def toggle_right_def case_LEFT_JOG_def
      case_RIGHT_JOG_def case_LEFT_PITCH_def case_RIGHT_PITCH_def case_103_def case_102_def
      case_101_def case_100_def PitchChange_libdjconsole_no_button split_beta Let_def
      split: if_splits)

lemma EV_ABS_volume_crossfade:
  assumes "distinct (EV_ABS_labels ki)"
  shows "fst (getNextEvent_EV_ABS ki flt (ki kiHerculesLeftVolume) ev_value st)
           = [SendEvent (real_of_int ev_value / 2) LeftVolume]"
    and "fst (getNextEvent_EV_ABS ki flt (ki kiHerculesRightVolume) ev_value st)
           = [SendEvent (real_of_int ev_value / 2) RightVolume]"
    and "fst (getNextEvent_EV_ABS ki flt (ki kiHerculesCrossfade) ev_value st)
           = [SendEvent (real_of_int (ev_value + 1) / 2) Crossfade]"
  using assms
  by (simp_all add: EV_ABS_code_eq_iff EV_ABS_codes_def getNextEvent_EV_ABS_def Let_def)

subsection \<open>The headphone cases\<close>

lemma spec_transition_events:
  assumes "spec_transition (first, second) current = Some target"
  shows "(first = 103 \<or> first = 102 \<or> first = 101 \<or> first = 100) \<and> first \<noteq> 0 \<and> second \<noteq> 0"
  using assms by (auto simp add: spec_transition_def split: if_splits)

lemma headphone_cases_selection:
  "m_iHerculesHeadphonesSelection (snd (case_103 second st))
     = spec_next_state (103, second) (m_iHerculesHeadphonesSelection st)"
  "m_iHerculesHeadphonesSelection (snd (case_102 second st))
     = spec_next_state (102, second) (m_iHerculesHeadphonesSelection st)"
  "m_iHerculesHeadphonesSelection (snd (case_101 second st))
     = spec_next_state (101, second) (m_iHerculesHeadphonesSelection st)"
  "m_iHerculesHeadphonesSelection (snd (case_100 second st))
     = spec_next_state (100, second) (m_iHerculesHeadphonesSelection st)"
  by (auto simp add: case_103_def case_102_def case_101_def case_100_def spec_next_state_def
      spec_transition_def toggle_left_def toggle_right_def split_beta Let_def)

lemma headphone_cases_rejected:
  "spec_transition (103, second) (m_iHerculesHeadphonesSelection st) = None \<Longrightarrow>
     case_103 second st = ([], st)"
  "spec_transition (102, second) (m_iHerculesHeadphonesSelection st) = None \<Longrightarrow>
     case_102 second st = ([], st)"
  "spec_transition (101, second) (m_iHerculesHeadphonesSelection st) = None \<Longrightarrow>
     case_101 second st = ([], st)"
  "spec_transition (100, second) (m_iHerculesHeadphonesSelection st) = None \<Longrightarrow>
     case_100 second st = ([], st)"
  by (auto simp add: case_103_def case_102_def case_101_def case_100_def spec_transition_def
      split: if_splits)

lemma headphone_case_103:
  assumes "spec_transition (103, second) (m_iHerculesHeadphonesSelection st) = Some target"
  shows "m_iHerculesHeadphonesSelection (snd (case_103 second st)) = target
    \<and> m_bHeadphoneLeft (snd (case_103 second st)) = required_left target
    \<and> m_bHeadphoneRight (snd (case_103 second st)) = required_right target
    \<and> sink_writes (fst (case_103 second st)) =
        (if m_bHeadphoneRight st \<noteq> required_right target
         then [SendButtonEvent True RightBtnHeadphone] else [])
        @ (if m_bHeadphoneLeft st \<noteq> required_left target
           then [SendButtonEvent True LeftBtnHeadphone] else [])"
  using assms
  by (auto simp add: case_103_def spec_transition_def toggle_left_def toggle_right_def
      sink_writes_def split_beta Let_def split: if_splits)

lemma headphone_case_102:
  assumes "spec_transition (102, second) (m_iHerculesHeadphonesSelection st) = Some target"
  shows "m_iHerculesHeadphonesSelection (snd (case_102 second st)) = target
    \<and> m_bHeadphoneLeft (snd (case_102 second st)) = required_left target
    \<and> m_bHeadphoneRight (snd (case_102 second st)) = required_right target
    \<and> sink_writes (fst (case_102 second st)) =
        (if m_bHeadphoneRight st \<noteq> required_right target
         then [SendButtonEvent True RightBtnHeadphone] else [])
        @ (if m_bHeadphoneLeft st \<noteq> required_left target
           then [SendButtonEvent True LeftBtnHeadphone] else [])"
  using assms
  by (auto simp add: case_102_def spec_transition_def toggle_left_def toggle_right_def
      sink_writes_def split_beta Let_def split: if_splits)

lemma headphone_case_101:
  assumes "spec_transition (101, second) (m_iHerculesHeadphonesSelection st) = Some target"
  shows "m_iHerculesHeadphonesSelection (snd (case_101 second st)) = target
    \<and> m_bHeadphoneLeft (snd (case_101 second st)) = required_left target
    \<and> m_bHeadphoneRight (snd (case_101 second st)) = required_right target
    \<and> sink_writes (fst (case_101 second st)) =
        (if m_bHeadphoneRight st \<noteq> required_right target
         then [SendButtonEvent True RightBtnHeadphone] else [])
        @ (if m_bHeadphoneLeft st \<noteq> required_left target
           then [SendButtonEvent True LeftBtnHeadphone] else [])"
  using assms
  by (auto simp add: case_101_def spec_transition_def toggle_left_def toggle_right_def
      sink_writes_def split_beta Let_def split: if_splits)

lemma headphone_case_100:
  assumes "spec_transition (100, second) (m_iHerculesHeadphonesSelection st) = Some target"
  shows "m_iHerculesHeadphonesSelection (snd (case_100 second st)) = target
    \<and> m_bHeadphoneLeft (snd (case_100 second st)) = required_left target
    \<and> m_bHeadphoneRight (snd (case_100 second st)) = required_right target
    \<and> sink_writes (fst (case_100 second st)) =
        (if m_bHeadphoneRight st \<noteq> required_right target
         then [SendButtonEvent True RightBtnHeadphone] else [])
        @ (if m_bHeadphoneLeft st \<noteq> required_left target
           then [SendButtonEvent True LeftBtnHeadphone] else [])"
  using assms
  by (auto simp add: case_100_def spec_transition_def toggle_left_def toggle_right_def
      sink_writes_def split_beta Let_def split: if_splits)

lemma second_switch_selection_other:
  "first \<noteq> 100 \<Longrightarrow> first \<noteq> 101 \<Longrightarrow> first \<noteq> 102 \<Longrightarrow> first \<noteq> 103 \<Longrightarrow>
   m_iHerculesHeadphonesSelection (snd (second_switch djc first second st))
     = m_iHerculesHeadphonesSelection st"
  by (simp add: second_switch_def toggle_left_def toggle_right_def case_LEFT_JOG_def
      case_RIGHT_JOG_def case_LEFT_PITCH_def case_RIGHT_PITCH_def split_beta Let_def)

lemma second_switch_selection:
  assumes "switch_labels_distinct djc"
  shows "m_iHerculesHeadphonesSelection (snd (second_switch djc first second st))
           = spec_next_state (first, second) (m_iHerculesHeadphonesSelection st)"
proof -
  consider "first = 103" | "first = 102" | "first = 101" | "first = 100"
    | "first \<noteq> 100" "first \<noteq> 101" "first \<noteq> 102" "first \<noteq> 103"
    by blast
  then show ?thesis
  proof cases
    case 1
    then show ?thesis
      by (simp add: second_switch_103 [OF assms] headphone_cases_selection)
  next
    case 2
    then show ?thesis
      by (simp add: second_switch_102 [OF assms] headphone_cases_selection)
  next
    case 3
    then show ?thesis
      by (simp add: second_switch_101 [OF assms] headphone_cases_selection)
  next
    case 4
    then show ?thesis
      by (simp add: second_switch_100 [OF assms] headphone_cases_selection)
  next
    case 5
    then show ?thesis
      by (simp add: second_switch_selection_other spec_next_state_def spec_transition_def)
  qed
qed

lemma second_switch_accepted:
  assumes "switch_labels_distinct djc"
    and "spec_transition (first, second) (m_iHerculesHeadphonesSelection st) = Some target"
  shows "m_iHerculesHeadphonesSelection (snd (second_switch djc first second st)) = target
    \<and> m_bHeadphoneLeft (snd (second_switch djc first second st)) = required_left target
    \<and> m_bHeadphoneRight (snd (second_switch djc first second st)) = required_right target
    \<and> sink_writes (fst (second_switch djc first second st)) =
        (if m_bHeadphoneRight st \<noteq> required_right target
         then [SendButtonEvent True RightBtnHeadphone] else [])
        @ (if m_bHeadphoneLeft st \<noteq> required_left target
           then [SendButtonEvent True LeftBtnHeadphone] else [])"
proof -
  from spec_transition_events [OF assms(2)]
  consider "first = 103" | "first = 102" | "first = 101" | "first = 100"
    by blast
  then show ?thesis
  proof cases
    case 1
    with assms(2) show ?thesis
      using headphone_case_103 [of second st target]
      by (simp add: second_switch_103 [OF assms(1)])
  next
    case 2
    with assms(2) show ?thesis
      using headphone_case_102 [of second st target]
      by (simp add: second_switch_102 [OF assms(1)])
  next
    case 3
    with assms(2) show ?thesis
      using headphone_case_101 [of second st target]
      by (simp add: second_switch_101 [OF assms(1)])
  next
    case 4
    with assms(2) show ?thesis
      using headphone_case_100 [of second st target]
      by (simp add: second_switch_100 [OF assms(1)])
  qed
qed

lemma second_switch_rejected:
  assumes "switch_labels_distinct djc"
    and "first = 103 \<or> first = 102 \<or> first = 101 \<or> first = 100"
    and "spec_transition (first, second) (m_iHerculesHeadphonesSelection st) = None"
  shows "second_switch djc first second st = ([], st)"
  using assms(2,3)
  by (auto simp add: second_switch_103 [OF assms(1)] second_switch_102 [OF assms(1)]
      second_switch_101 [OF assms(1)] second_switch_100 [OF assms(1)] headphone_cases_rejected)

subsection \<open>Unrecognized codes\<close>

lemma unrecognized_once:
  assumes "first \<notin> set (second_switch_labels djc)"
  shows "sink_writes (fst (consoleEvent djc sc first second st)) = []
    \<and> decoder_state (snd (consoleEvent djc sc first second st)) = decoder_state st
    \<and> filter is_log (fst (consoleEvent djc sc first second st)) =
        (if first \<noteq> 0 \<and> second \<noteq> 0 then [QDebugButton first second] else [])"
proof (cases "second = 0 \<or> first = 0")
  case True
  then show ?thesis
    by (auto simp add: consoleEvent_def sink_writes_def)
next
  case False
  obtain led es1 st1 where fs: "first_switch djc sc first st = (led, es1, st1)"
    by (cases "first_switch djc sc first st") auto
  have es1: "sink_writes es1 = []" "filter is_log es1 = []"
    using first_switch_no_sink_write [of djc sc first st] first_switch_no_log [of djc sc first st]
    by (simp_all add: fs)
  have st1: "decoder_state st1 = decoder_state st"
    using first_switch_decoder_state [of djc sc first st] by (simp add: fs)
  from False have nz: "second \<noteq> 0" "first \<noteq> 0" by simp_all
  show ?thesis
    by (simp add: consoleEvent_dispatch [OF nz fs] second_switch_default [OF assms]
        sink_writes_append es1 st1 nz)
      (simp add: sink_writes_def)
qed

subsection \<open>Pitch: the revised PitchChange\<close>

text \<open>
  C1. The revised \<^verbatim>\<open>PitchChange\<close> is the specification's update, for every raw value,
  previous value and offset: an offset holding the sentinel -9999 becomes 127 - raw; then
  the first of the four rollover rules that applies, in the listed order, fires, and no
  other; previous becomes raw; and the result is ((previous + offset) - 0.5) / 2 on the
  new values.
\<close>

theorem PitchChange_refines_spec_update:
  "PitchChange raw previous offset = spec_update raw previous (stored_offset offset)
   \<and> PitchChange_branch raw previous offset =
       branch_of_rule (fired_rule previous
         (case stored_offset offset of None \<Rightarrow> 127 - raw | Some off \<Rightarrow> off) raw)
   \<and> fst (snd (PitchChange raw previous offset)) = raw
   \<and> fst (PitchChange raw previous offset) =
       (real_of_int (raw + snd (snd (PitchChange raw previous offset))) - 0.5) / 2"
  by (simp add: PitchChange_def PitchChange_branch_def spec_update_def stored_offset_def
      fired_rule_def branch_of_rule_def Let_def)

subsection \<open>Jog wheel\<close>

text \<open>
  C2, as stated, fails for a jog event of raw value 0 in \<^verbatim>\<open>consoleEvent\<close>: the handler
  returns at its first test, before the \<^verbatim>\<open>switch\<close>. With the previous raw value 5 stored,
  the specification's \<open>unwrap\<close> gives the delta -5 and the new previous value 0; the handler
  leaves the stored value at 5 and the sum as it was.
\<close>

theorem jog_value_zero_counterexample:
  "example_djc LEFT_JOG \<noteq> 0
   \<and> m_dJogLeftOld (example_state\<lparr>m_dJogLeftOld := 5\<rparr>) = 5
   \<and> spec_unwrap (stored_previous 5) 0 = (- 5, 0)
   \<and> m_dJogLeftOld (snd (consoleEvent example_djc example_setCalibration
        (example_djc LEFT_JOG) 0 (example_state\<lparr>m_dJogLeftOld := 5\<rparr>))) = 5
   \<and> m_iJogLeft (snd (consoleEvent example_djc example_setCalibration
        (example_djc LEFT_JOG) 0 (example_state\<lparr>m_dJogLeftOld := 5\<rparr>)))
       = m_iJogLeft (example_state\<lparr>m_dJogLeftOld := 5\<rparr>)"
  by (simp add: example_djc_def consoleEvent_def spec_unwrap_def stored_previous_def)

text \<open>
  C2, amended. The jog block of the code is the specification's \<open>unwrap\<close>: with no previous
  raw value (a negative stored value) the delta is 0; otherwise it is current minus
  previous, plus 256 when below -200, minus 256 when above 200, unchanged otherwise; and
  the new stored value is the current raw value. With distinct case labels, every jog
  event of \<^verbatim>\<open>getNextEvent\<close> runs it: the handler stores the current raw value in
  \<^verbatim>\<open>m_iJogLeft\<close> (\<^verbatim>\<open>m_iJogRight\<close>), writes the filtered sixteenth of that delta and changes
  nothing else but the filter. So does every jog event of \<^verbatim>\<open>consoleEvent\<close> whose raw value
  is not 0 (and whose code is not 0): the handler stores the current raw value in
  \<^verbatim>\<open>m_dJogLeftOld\<close> (\<^verbatim>\<open>m_dJogRightOld\<close>), adds that delta to \<^verbatim>\<open>m_iJogLeft\<close>
  (\<^verbatim>\<open>m_iJogRight\<close>), changes nothing else of the decoder state and writes nothing to a sink.
\<close>

theorem jog_unwrapping_in_handlers:
  assumes "switch_labels_distinct djc" and "distinct (EV_ABS_labels ki)" and "second \<noteq> 0"
  shows "jog_step old raw = spec_unwrap (stored_previous old) raw
    \<and> snd (jog_step old raw) = raw
    \<and> (djc LEFT_JOG \<noteq> 0 \<longrightarrow>
          sink_writes (fst (consoleEvent djc sc (djc LEFT_JOG) second st)) = []
          \<and> decoder_state (snd (consoleEvent djc sc (djc LEFT_JOG) second st)) =
              decoder_state (st\<lparr>m_dJogLeftOld := second,
                m_iJogLeft := m_iJogLeft st
                  + fst (spec_unwrap (stored_previous (m_dJogLeftOld st)) second)\<rparr>))
    \<and> (djc RIGHT_JOG \<noteq> 0 \<longrightarrow>
          sink_writes (fst (consoleEvent djc sc (djc RIGHT_JOG) second st)) = []
          \<and> decoder_state (snd (consoleEvent djc sc (djc RIGHT_JOG) second st)) =
              decoder_state (st\<lparr>m_dJogRightOld := second,
                m_iJogRight := m_iJogRight st
                  + fst (spec_unwrap (stored_previous (m_dJogRightOld st)) second)\<rparr>))
    \<and> getNextEvent_EV_ABS ki flt (ki kiHerculesLeftJog) raw st =
        ([SendEvent
            (fst (flt (real_of_int (fst (spec_unwrap (stored_previous (m_iJogLeft st)) raw)) / 16)
                    (m_pRotaryLeft st)))
            LeftJog],
         st\<lparr>m_pRotaryLeft :=
              snd (flt (real_of_int (fst (spec_unwrap (stored_previous (m_iJogLeft st)) raw)) / 16)
                     (m_pRotaryLeft st)),
            m_iJogLeft := raw\<rparr>)
    \<and> getNextEvent_EV_ABS ki flt (ki kiHerculesRightJog) raw st =
        ([SendEvent
            (fst (flt (real_of_int (fst (spec_unwrap (stored_previous (m_iJogRight st)) raw)) / 16)
                    (m_pRotaryRight st)))
            RightJog],
         st\<lparr>m_pRotaryRight :=
              snd (flt (real_of_int (fst (spec_unwrap (stored_previous (m_iJogRight st)) raw)) / 16)
                     (m_pRotaryRight st)),
            m_iJogRight := raw\<rparr>)"
proof -
  have block: "jog_step x y = spec_unwrap (stored_previous x) y" for x y
    by (simp add: jog_step_def jog_raw_diff_def jog_rollover_def spec_unwrap_def
        stored_previous_def Let_def)
  have stored: "snd (jog_step old raw) = raw"
    by (simp add: jog_step_def)
  have left: "getNextEvent_EV_ABS ki flt (ki kiHerculesLeftJog) raw st =
        ([SendEvent
            (fst (flt (real_of_int (fst (spec_unwrap (stored_previous (m_iJogLeft st)) raw)) / 16)
                    (m_pRotaryLeft st)))
            LeftJog],
         st\<lparr>m_pRotaryLeft :=
              snd (flt (real_of_int (fst (spec_unwrap (stored_previous (m_iJogLeft st)) raw)) / 16)
                     (m_pRotaryLeft st)),
            m_iJogLeft := raw\<rparr>)"
    by (simp add: EV_ABS_jog [OF assms(2)] case_kiHerculesLeftJog_def block split_beta)
      (simp add: spec_unwrap_def stored_previous_def Let_def)
  have right: "getNextEvent_EV_ABS ki flt (ki kiHerculesRightJog) raw st =
        ([SendEvent
            (fst (flt (real_of_int (fst (spec_unwrap (stored_previous (m_iJogRight st)) raw)) / 16)
                    (m_pRotaryRight st)))
            RightJog],
         st\<lparr>m_pRotaryRight :=
              snd (flt (real_of_int (fst (spec_unwrap (stored_previous (m_iJogRight st)) raw)) / 16)
                     (m_pRotaryRight st)),
            m_iJogRight := raw\<rparr>)"
    by (simp add: EV_ABS_jog [OF assms(2)] case_kiHerculesRightJog_def block split_beta)
      (simp add: spec_unwrap_def stored_previous_def Let_def)
  show ?thesis
    using block [of old raw] stored left right
      consoleEvent_jog(1) [OF assms(1) assms(3), of sc st]
      consoleEvent_jog(2) [OF assms(1) assms(3), of sc st]
    by blast
qed

text \<open>
  With the previous raw value 5 stored, a left jog event of raw value 250 in
  \<^verbatim>\<open>consoleEvent\<close>: 250 is stored and -11 is added to the sum. With the previous raw value
  250 stored, a left jog event of raw value 0 in \<^verbatim>\<open>getNextEvent\<close>: 0 is stored and the
  filter is given 6/16.
\<close>

theorem jog_unwrapping_in_handlers_witness:
  "switch_labels_distinct example_djc \<and> distinct (EV_ABS_labels example_ki)
   \<and> (250::int) \<noteq> 0 \<and> example_djc LEFT_JOG \<noteq> 0 \<and> example_djc RIGHT_JOG \<noteq> 0
   \<and> decoder_state (snd (consoleEvent example_djc example_setCalibration
        (example_djc LEFT_JOG) 250 (example_state\<lparr>m_dJogLeftOld := 5\<rparr>)))
       = ((250, - 1, - 11, 0), (- 1, - 1, 0, 0), kiHerculesHeadphoneMix, False, False)
   \<and> sink_writes (fst (consoleEvent example_djc example_setCalibration
        (example_djc LEFT_JOG) 250 (example_state\<lparr>m_dJogLeftOld := 5\<rparr>))) = []
   \<and> fst (getNextEvent_EV_ABS example_ki example_filter (example_ki kiHerculesLeftJog) 0
        (example_state\<lparr>m_iJogLeft := 250\<rparr>)) = [SendEvent (3 / 512) LeftJog]
   \<and> m_iJogLeft (snd (getNextEvent_EV_ABS example_ki example_filter
        (example_ki kiHerculesLeftJog) 0 (example_state\<lparr>m_iJogLeft := 250\<rparr>))) = 0"
proof -
  have d: "switch_labels_distinct example_djc"
    by (simp add: switch_labels_distinct_def first_switch_labels_def second_switch_labels_def
        first_switch_codes_def second_switch_codes_def example_djc_def)
  have k: "distinct (EV_ABS_labels example_ki)"
    by (simp add: EV_ABS_labels_def EV_ABS_codes_def example_ki_def)
  have s: "(250::int) \<noteq> 0" by simp
  have nz: "example_djc LEFT_JOG \<noteq> 0" "example_djc RIGHT_JOG \<noteq> 0"
    by (simp_all add: example_djc_def)
  show ?thesis
    using d k nz
      jog_unwrapping_in_handlers [OF d k s, of 5 250 example_setCalibration
        "example_state\<lparr>m_dJogLeftOld := 5\<rparr>" example_filter]
      jog_unwrapping_in_handlers [OF d k s, of 250 0 example_setCalibration
        "example_state\<lparr>m_iJogLeft := 250\<rparr>" example_filter]
    by (simp add: decoder_state_def example_state_def example_filter_def spec_unwrap_def
        stored_previous_def)
qed

text \<open>
  C3, as stated, fails: from previous 201 to current 1 the raw difference is -200, which
  is not below -200, so it is kept: the delta -200 lies outside (-200, 200] and its
  absolute value exceeds 128.
\<close>

theorem jog_delta_bound_counterexample:
  "(0::int) \<le> 201 \<and> (201::int) \<le> 255 \<and> (0::int) \<le> 1 \<and> (1::int) \<le> 255
   \<and> fst (jog_step 201 1) = - 200
   \<and> \<not> (- 200 < fst (jog_step 201 1))
   \<and> \<not> (\<bar>fst (jog_step 201 1)\<bar> \<le> 128)"
  by (simp add: jog_step_def jog_raw_diff_def jog_rollover_def)

text \<open>
  C3, amended. For every previous and current value in [0,255] the corrected delta lies
  in the closed interval [-200, 200], so its absolute value is at most 200.
\<close>

theorem jog_delta_bound:
  assumes "0 \<le> old" "old \<le> 255" "0 \<le> second" "second \<le> 255"
  shows "- 200 \<le> fst (jog_step old second) \<and> fst (jog_step old second) \<le> 200
         \<and> \<bar>fst (jog_step old second)\<bar> \<le> 200"
  using assms by (auto simp add: jog_step_def jog_raw_diff_def jog_rollover_def)

text \<open>
  Previous 0 and current 200: the delta is 200, the upper end of the interval.
\<close>

theorem jog_delta_bound_witness:
  "(0::int) \<le> 0 \<and> (0::int) \<le> 255 \<and> (0::int) \<le> 200 \<and> (200::int) \<le> 255
   \<and> - 200 \<le> fst (jog_step 0 200) \<and> fst (jog_step 0 200) \<le> 200
   \<and> \<bar>fst (jog_step 0 200)\<bar> \<le> 200 \<and> fst (jog_step 0 200) = 200"
  using jog_delta_bound [of 0 200]
  by (simp add: jog_step_def jog_raw_diff_def jog_rollover_def)

subsection \<open>Headphone selector\<close>

text \<open>
  C4. With distinct case labels, \<^verbatim>\<open>consoleEvent\<close> moves the headphone selector as the
  specification's state machine does, for every event and every current state: (103,4)
  to SPLIT and (102,8) to MIX from any state, (101,2) to DECK_B from DECK_A or MIX only,
  (100,1) to DECK_A from DECK_B only, and any other pair leaves the selector state
  unchanged. One of the four codes with a value or in a state that makes no transition is
  a no-op: no sink write, no change of the decoder state.
\<close>

theorem headphone_selector_transitions:
  assumes "switch_labels_distinct djc"
  shows "m_iHerculesHeadphonesSelection (snd (consoleEvent djc sc first second st))
           = spec_next_state (first, second) (m_iHerculesHeadphonesSelection st)
    \<and> ((first = 103 \<or> first = 102 \<or> first = 101 \<or> first = 100)
         \<and> spec_transition (first, second) (m_iHerculesHeadphonesSelection st) = None
       \<longrightarrow> sink_writes (fst (consoleEvent djc sc first second st)) = []
           \<and> decoder_state (snd (consoleEvent djc sc first second st)) = decoder_state st)"
proof -
  obtain led es1 st1 where fs: "first_switch djc sc first st = (led, es1, st1)"
    by (cases "first_switch djc sc first st") auto
  have same: "m_iHerculesHeadphonesSelection st1 = m_iHerculesHeadphonesSelection st"
    using first_switch_headphones [of djc sc first st] by (simp add: fs)
  have dec: "decoder_state st1 = decoder_state st"
    using first_switch_decoder_state [of djc sc first st] by (simp add: fs)
  have es1: "sink_writes es1 = []"
    using first_switch_no_sink_write [of djc sc first st] by (simp add: fs)
  have sel: "m_iHerculesHeadphonesSelection (snd (consoleEvent djc sc first second st))
           = spec_next_state (first, second) (m_iHerculesHeadphonesSelection st)"
  proof (cases "second = 0 \<or> first = 0")
    case True
    then show ?thesis
      by (auto simp add: consoleEvent_def spec_next_state_def spec_transition_def)
  next
    case False
    then show ?thesis
      using second_switch_selection [OF assms, of first second st1]
      by (simp add: consoleEvent_def fs split_beta same)
  qed
  have noop: "sink_writes (fst (consoleEvent djc sc first second st)) = []
           \<and> decoder_state (snd (consoleEvent djc sc first second st)) = decoder_state st"
    if f: "first = 103 \<or> first = 102 \<or> first = 101 \<or> first = 100"
      and n: "spec_transition (first, second) (m_iHerculesHeadphonesSelection st) = None"
  proof (cases "second = 0")
    case True
    then show ?thesis
      by (simp add: consoleEvent_def sink_writes_def)
  next
    case False
    from f have nz: "first \<noteq> 0" by auto
    have "spec_transition (first, second) (m_iHerculesHeadphonesSelection st1) = None"
      using n by (simp add: same)
    from second_switch_rejected [OF assms f this] show ?thesis
      by (simp add: consoleEvent_dispatch [OF False nz fs] sink_writes_append es1 dec)
        (simp add: sink_writes_def)
  qed
  show ?thesis
    using sel noop by blast
qed

text \<open>
  In state MIX, with both booleans false: (100,1) changes nothing, (101,2) moves to
  DECK_B.
\<close>

theorem headphone_selector_transitions_witness:
  "switch_labels_distinct example_djc
   \<and> m_iHerculesHeadphonesSelection example_state = kiHerculesHeadphoneMix
   \<and> spec_transition (100, 1) (m_iHerculesHeadphonesSelection example_state) = None
   \<and> m_iHerculesHeadphonesSelection
        (snd (consoleEvent example_djc example_setCalibration 100 1 example_state))
       = kiHerculesHeadphoneMix
   \<and> sink_writes (fst (consoleEvent example_djc example_setCalibration 100 1 example_state)) = []
   \<and> decoder_state (snd (consoleEvent example_djc example_setCalibration 100 1 example_state))
       = decoder_state example_state
   \<and> m_iHerculesHeadphonesSelection
        (snd (consoleEvent example_djc example_setCalibration 101 2 example_state))
       = kiHerculesHeadphoneDeckB"
proof -
  have d: "switch_labels_distinct example_djc"
    by (simp add: switch_labels_distinct_def first_switch_labels_def second_switch_labels_def
        first_switch_codes_def second_switch_codes_def example_djc_def)
  have n: "spec_transition (100, 1) (m_iHerculesHeadphonesSelection example_state) = None"
    by (simp add: spec_transition_def example_state_def)
  show ?thesis
    using d n headphone_selector_transitions [OF d, of example_setCalibration 100 1 example_state]
      headphone_selector_transitions [OF d, of example_setCalibration 101 2 example_state]
    by (simp add: spec_next_state_def spec_transition_def example_state_def)
qed

text \<open>
  C5. With distinct case labels, after every accepted transition of the selector, whatever
  the two headphone booleans were, they equal the configuration the target state requires
  (SPLIT: both false; MIX: both true; DECK_A: left true, right false; DECK_B: right true,
  left false), and the sink writes of the event are one button write for each boolean
  that differed from that configuration, the right one first: only those are toggled.
\<close>

theorem headphone_booleans_after_transition:
  assumes "switch_labels_distinct djc"
    and "spec_transition (first, second) (m_iHerculesHeadphonesSelection st) = Some target"
  shows "m_iHerculesHeadphonesSelection (snd (consoleEvent djc sc first second st)) = target
    \<and> m_bHeadphoneLeft (snd (consoleEvent djc sc first second st)) = required_left target
    \<and> m_bHeadphoneRight (snd (consoleEvent djc sc first second st)) = required_right target
    \<and> sink_writes (fst (consoleEvent djc sc first second st)) =
        (if m_bHeadphoneRight st \<noteq> required_right target
         then [SendButtonEvent True RightBtnHeadphone] else [])
        @ (if m_bHeadphoneLeft st \<noteq> required_left target
           then [SendButtonEvent True LeftBtnHeadphone] else [])"
proof -
  obtain led es1 st1 where fs: "first_switch djc sc first st = (led, es1, st1)"
    by (cases "first_switch djc sc first st") auto
  have same: "m_iHerculesHeadphonesSelection st1 = m_iHerculesHeadphonesSelection st"
    "m_bHeadphoneLeft st1 = m_bHeadphoneLeft st" "m_bHeadphoneRight st1 = m_bHeadphoneRight st"
    using first_switch_headphones [of djc sc first st] by (simp_all add: fs)
  have es1: "sink_writes es1 = []"
    using first_switch_no_sink_write [of djc sc first st] by (simp add: fs)
  have nz: "first \<noteq> 0" "second \<noteq> 0"
    using spec_transition_events [OF assms(2)] by simp_all
  have "spec_transition (first, second) (m_iHerculesHeadphonesSelection st1) = Some target"
    using assms(2) by (simp add: same)
  from second_switch_accepted [OF assms(1) this] show ?thesis
    by (simp add: consoleEvent_dispatch [OF nz(2) nz(1) fs] sink_writes_append es1 same)
      (simp add: sink_writes_def)
qed

text \<open>
  From MIX with both booleans false, (101,2) moves to DECK_B: the right boolean is
  toggled, with one button write, and the left one is left alone.
\<close>

theorem headphone_booleans_after_transition_witness:
  "switch_labels_distinct example_djc
   \<and> spec_transition (101, 2) (m_iHerculesHeadphonesSelection example_state)
       = Some kiHerculesHeadphoneDeckB
   \<and> m_bHeadphoneLeft example_state = False \<and> m_bHeadphoneRight example_state = False
   \<and> m_bHeadphoneLeft (snd (consoleEvent example_djc example_setCalibration 101 2 example_state))
       = False
   \<and> m_bHeadphoneRight (snd (consoleEvent example_djc example_setCalibration 101 2 example_state))
       = True
   \<and> sink_writes (fst (consoleEvent example_djc example_setCalibration 101 2 example_state))
       = [SendButtonEvent True RightBtnHeadphone]"
proof -
  have d: "switch_labels_distinct example_djc"
    by (simp add: switch_labels_distinct_def first_switch_labels_def second_switch_labels_def
        first_switch_codes_def second_switch_codes_def example_djc_def)
  have t: "spec_transition (101, 2) (m_iHerculesHeadphonesSelection example_state)
             = Some kiHerculesHeadphoneDeckB"
    by (simp add: spec_transition_def example_state_def)
  show ?thesis
    using d t headphone_booleans_after_transition [OF d t, of example_setCalibration]
    by (simp add: example_state_def)
qed

subsection \<open>Events that are dropped\<close>

text \<open>
  C6, as stated, fails in that not every unrecognized event is logged: the code 999 is no
  label of either \<^verbatim>\<open>switch\<close>, and with the value 0 the handler returns after clearing
  the LED bit, before the \<^verbatim>\<open>default\<close> case that logs.
\<close>

theorem unrecognized_not_logged_counterexample:
  "999 \<notin> set (second_switch_labels example_djc)
   \<and> 999 \<notin> set (first_switch_labels example_djc)
   \<and> fst (consoleEvent example_djc example_setCalibration 999 0 example_state)
       = [LedSetBit 999 False]
   \<and> filter is_log (fst (consoleEvent example_djc example_setCalibration 999 0 example_state)) = []"
  by (simp add: second_switch_labels_def first_switch_labels_def second_switch_codes_def
      first_switch_codes_def example_djc_def consoleEvent_def)

text \<open>
  C6, amended. An event whose code is no label of the dispatching \<^verbatim>\<open>switch\<close> produces no
  sink write and leaves the decoder state unchanged (the whole state, when the code is no
  label of the first \<^verbatim>\<open>switch\<close> either); it is logged exactly when its code and its
  value are both nonzero; and dispatching it a second time again produces no sink write and
  leaves the decoder state unchanged.
\<close>

theorem unrecognized_control_dropped:
  assumes "first \<notin> set (second_switch_labels djc)"
  shows "sink_writes (fst (consoleEvent djc sc first second st)) = []
    \<and> decoder_state (snd (consoleEvent djc sc first second st)) = decoder_state st
    \<and> filter is_log (fst (consoleEvent djc sc first second st)) =
        (if first \<noteq> 0 \<and> second \<noteq> 0 then [QDebugButton first second] else [])
    \<and> (first \<notin> set (first_switch_labels djc) \<longrightarrow> snd (consoleEvent djc sc first second st) = st)
    \<and> sink_writes (fst (consoleEvent djc sc first second
          (snd (consoleEvent djc sc first second st)))) = []
    \<and> decoder_state (snd (consoleEvent djc sc first second
          (snd (consoleEvent djc sc first second st)))) = decoder_state st"
proof -
  have unchanged: "snd (consoleEvent djc sc first second st) = st"
    if "first \<notin> set (first_switch_labels djc)"
    using that assms
    by (simp add: consoleEvent_def first_switch_unlabelled second_switch_default)
  show ?thesis
    using unrecognized_once [OF assms, of sc second st]
      unrecognized_once [OF assms, of sc second "snd (consoleEvent djc sc first second st)"]
      unchanged
    by simp
qed

text \<open>
  The code 999 with the value 7: logged once, nothing written, the state as it was.
\<close>

theorem unrecognized_control_dropped_witness:
  "999 \<notin> set (second_switch_labels example_djc)
   \<and> 999 \<notin> set (first_switch_labels example_djc)
   \<and> sink_writes (fst (consoleEvent example_djc example_setCalibration 999 7 example_state)) = []
   \<and> filter is_log (fst (consoleEvent example_djc example_setCalibration 999 7 example_state))
       = [QDebugButton 999 7]
   \<and> snd (consoleEvent example_djc example_setCalibration 999 7 example_state) = example_state"
proof -
  have l2: "999 \<notin> set (second_switch_labels example_djc)"
    by (simp add: second_switch_labels_def second_switch_codes_def example_djc_def)
  have l1: "999 \<notin> set (first_switch_labels example_djc)"
    by (simp add: first_switch_labels_def first_switch_codes_def example_djc_def)
  show ?thesis
    using unrecognized_control_dropped [OF l2, of example_setCalibration 7 example_state] l1 l2
    by simp
qed

subsection \<open>Jog wheel and pitch: the specification's examples\<close>

text \<open>
  C7. With previous 5 and current 250 the raw delta is 245 and the corrected delta -11;
  with previous 250 and current 5 the raw delta is -245 and the corrected delta 11.
\<close>

theorem jog_step_examples:
  "jog_raw_diff 5 250 = 245 \<and> jog_step 5 250 = (- 11, 250)
   \<and> jog_raw_diff 250 5 = - 245 \<and> jog_step 250 5 = (11, 5)"
  by (simp add: jog_step_def jog_raw_diff_def jog_rollover_def)

text \<open>
  C8. A first pitch event with raw value 64, the offset holding the sentinel -9999: the
  offset becomes 127 - 64 = 63, none of the four rollover conditions holds (whatever the
  previous value), and the result is ((64 + 63) - 0.5) / 2 = 63.25.
\<close>

theorem PitchChange_first_event_64:
  "PitchChange 64 previous (- 9999) = (63.25, 64, 63)
   \<and> PitchChange_branch 64 previous (- 9999) = Branch_NONE"
  by (simp add: PitchChange_def PitchChange_branch_def Let_def)

subsection \<open>Volume and crossfader\<close>

text \<open>
  C9, as stated, fails at the raw value 0 in \<^verbatim>\<open>consoleEvent\<close>: the handler returns at
  its first test, so a volume or crossfader event of value 0 writes nothing to the sink.
\<close>

theorem volume_zero_counterexample:
  "example_djc LEFT_VOL \<noteq> 0 \<and> example_djc XFADER \<noteq> 0
   \<and> sink_writes (fst (consoleEvent example_djc example_setCalibration
        (example_djc LEFT_VOL) 0 example_state)) = []
   \<and> sink_writes (fst (consoleEvent example_djc example_setCalibration
        (example_djc XFADER) 0 example_state)) = []"
  by (simp add: example_djc_def consoleEvent_def sink_writes_def)

text \<open>
  C9, amended. With distinct case labels: in \<^verbatim>\<open>consoleEvent\<close>, for every raw value v in
  [1,255] (and a nonzero code), a volume event produces exactly one continuous-sink
  write, of v/2, and a crossfader event exactly one, of (v+1)/2. In \<^verbatim>\<open>getNextEvent\<close> the
  same holds for every raw value v in [0,255].
\<close>

theorem volume_crossfader_scaling:
  assumes "switch_labels_distinct djc" and "distinct (EV_ABS_labels ki)"
    and "1 \<le> second" and "second \<le> 255" and "0 \<le> ev_value" and "ev_value \<le> 255"
  shows "(djc LEFT_VOL \<noteq> 0 \<longrightarrow>
            sink_writes (fst (consoleEvent djc sc (djc LEFT_VOL) second st))
              = [SendEvent (real_of_int second / 2) LeftVolume])
    \<and> (djc RIGHT_VOL \<noteq> 0 \<longrightarrow>
            sink_writes (fst (consoleEvent djc sc (djc RIGHT_VOL) second st))
              = [SendEvent (real_of_int second / 2) RightVolume])
    \<and> (djc XFADER \<noteq> 0 \<longrightarrow>
            sink_writes (fst (consoleEvent djc sc (djc XFADER) second st))
              = [SendEvent (real_of_int (second + 1) / 2) Crossfade])
    \<and> sink_writes (fst (getNextEvent_EV_ABS ki flt (ki kiHerculesLeftVolume) ev_value st))
          = [SendEvent (real_of_int ev_value / 2) LeftVolume]
    \<and> sink_writes (fst (getNextEvent_EV_ABS ki flt (ki kiHerculesRightVolume) ev_value st))
          = [SendEvent (real_of_int ev_value / 2) RightVolume]
    \<and> sink_writes (fst (getNextEvent_EV_ABS ki flt (ki kiHerculesCrossfade) ev_value st))
          = [SendEvent (real_of_int (ev_value + 1) / 2) Crossfade]"
proof -
  from assms(3) have "second \<noteq> 0" by simp
  then show ?thesis
    by (simp add: consoleEvent_sink_writes second_switch_LEFT_VOL
        second_switch_RIGHT_VOL [OF assms(1)] second_switch_XFADER [OF assms(1)]
        EV_ABS_volume_crossfade [OF assms(2)])
      (simp add: sink_writes_def)
qed

text \<open>
  The raw value 255 in \<^verbatim>\<open>consoleEvent\<close>: 127.5 for the volume, 128 for the crossfader. The
  raw value 0 in the evdev handler: 0 for the volume, 0.5 for the crossfader.
\<close>

theorem volume_crossfader_scaling_witness:
  "switch_labels_distinct example_djc \<and> distinct (EV_ABS_labels example_ki)
   \<and> (1::int) \<le> 255 \<and> (255::int) \<le> 255 \<and> (0::int) \<le> 0 \<and> (0::int) \<le> 255
   \<and> example_djc LEFT_VOL \<noteq> 0 \<and> example_djc RIGHT_VOL \<noteq> 0 \<and> example_djc XFADER \<noteq> 0
   \<and> sink_writes (fst (consoleEvent example_djc example_setCalibration
        (example_djc LEFT_VOL) 255 example_state)) = [SendEvent (255 / 2) LeftVolume]
   \<and> sink_writes (fst (consoleEvent example_djc example_setCalibration
        (example_djc RIGHT_VOL) 255 example_state)) = [SendEvent (255 / 2) RightVolume]
   \<and> sink_writes (fst (consoleEvent example_djc example_setCalibration
        (example_djc XFADER) 255 example_state)) = [SendEvent 128 Crossfade]
   \<and> sink_writes (fst (getNextEvent_EV_ABS example_ki example_filter
        (example_ki kiHerculesLeftVolume) 0 example_state)) = [SendEvent 0 LeftVolume]
   \<and> sink_writes (fst (getNextEvent_EV_ABS example_ki example_filter
        (example_ki kiHerculesCrossfade) 0 example_state)) = [SendEvent (1 / 2) Crossfade]"
proof -
  have d: "switch_labels_distinct example_djc"
    by (simp add: switch_labels_distinct_def first_switch_labels_def second_switch_labels_def
        first_switch_codes_def second_switch_codes_def example_djc_def)
  have k: "distinct (EV_ABS_labels example_ki)"
    by (simp add: EV_ABS_labels_def EV_ABS_codes_def example_ki_def)
  have nz: "example_djc LEFT_VOL \<noteq> 0" "example_djc RIGHT_VOL \<noteq> 0" "example_djc XFADER \<noteq> 0"
    by (simp_all add: example_djc_def)
  have b: "(1::int) \<le> 255" "(255::int) \<le> 255" "(0::int) \<le> 0" "(0::int) \<le> 255"
    by simp_all
  show ?thesis
    using d k nz
      volume_crossfader_scaling [OF d k b, of example_setCalibration example_state
        example_filter]
    by simp
qed

subsection \<open>Events of value 0 and the code 0\<close>

text \<open>
  C10, as stated, fails in that not every event of code 0 is ignored entirely: the test of
  the value comes first, so the event of code 0 and value 0 clears the LED bit 0 before
  the handler returns.
\<close>

theorem code_zero_value_zero_counterexample:
  "consoleEvent example_djc example_setCalibration 0 0 example_state
     = ([LedSetBit 0 False], example_state)
   \<and> fst (consoleEvent example_djc example_setCalibration 0 0 example_state) \<noteq> []"
  by (simp add: consoleEvent_def)

text \<open>
  C10, amended. In \<^verbatim>\<open>consoleEvent\<close> an event of value 0 returns after one LED update, and an
  event of code 0 and nonzero value is ignored entirely; in both cases there is no sink
  write and the state is unchanged. A release (\<open>SendButtonEvent False\<close>) is emitted for the
  two auto-beat buttons only, by their own events.
\<close>

theorem zero_value_and_zero_code_ignored:
  "(second = 0 \<longrightarrow> consoleEvent djc sc first second st = ([LedSetBit first False], st))
   \<and> (first = 0 \<and> second \<noteq> 0 \<longrightarrow> consoleEvent djc sc first second st = ([], st))
   \<and> (second = 0 \<or> first = 0 \<longrightarrow>
        sink_writes (fst (consoleEvent djc sc first second st)) = []
        \<and> snd (consoleEvent djc sc first second st) = st)
   \<and> (SendButtonEvent False c \<in> set (fst (consoleEvent djc sc first second st)) \<longrightarrow>
        (c = LeftBtnAutobeat \<and> first = djc LEFT_AUTO_BEAT)
        \<or> (c = RightBtnAutobeat \<and> first = djc RIGHT_AUTO_BEAT))"
proof -
  have release: "(c = LeftBtnAutobeat \<and> first = djc LEFT_AUTO_BEAT)
        \<or> (c = RightBtnAutobeat \<and> first = djc RIGHT_AUTO_BEAT)"
    if r: "SendButtonEvent False c \<in> set (fst (consoleEvent djc sc first second st))"
  proof -
    obtain led es1 st1 where fs: "first_switch djc sc first st = (led, es1, st1)"
      by (cases "first_switch djc sc first st") auto
    have es1: "SendButtonEvent False c \<notin> set es1"
      using first_switch_no_button [of False c djc sc first st] by (simp add: fs)
    have nz: "second \<noteq> 0" "first \<noteq> 0"
      using r by (auto simp add: consoleEvent_def split: if_splits)
    have "SendButtonEvent False c \<in> set (fst (second_switch djc first second st1))"
      using r es1 by (simp add: consoleEvent_dispatch [OF nz fs] split: if_splits)
    then show ?thesis by (rule second_switch_release)
  qed
  show ?thesis
    using release by (auto simp add: consoleEvent_def sink_writes_def)
qed

text \<open>
  A volume event of value 0, an event of code 0, and the release that the left auto-beat
  button emits.
\<close>

theorem zero_value_and_zero_code_ignored_witness:
  "consoleEvent example_djc example_setCalibration (example_djc LEFT_VOL) 0 example_state
     = ([LedSetBit (example_djc LEFT_VOL) False], example_state)
   \<and> consoleEvent example_djc example_setCalibration 0 5 example_state = ([], example_state)
   \<and> sink_writes (fst (consoleEvent example_djc example_setCalibration 0 5 example_state)) = []
   \<and> SendButtonEvent False LeftBtnAutobeat
       \<in> set (fst (consoleEvent example_djc example_setCalibration
                  (example_djc LEFT_AUTO_BEAT) 1 example_state))"
proof -
  have r: "SendButtonEvent False LeftBtnAutobeat
       \<in> set (fst (consoleEvent example_djc example_setCalibration
                  (example_djc LEFT_AUTO_BEAT) 1 example_state))"
    by (simp add: consoleEvent_def first_switch_def second_switch_def example_djc_def)
  show ?thesis
    using r
      zero_value_and_zero_code_ignored [of 0 example_djc example_setCalibration
        "example_djc LEFT_VOL" example_state LeftBtnAutobeat]
      zero_value_and_zero_code_ignored [of 5 example_djc example_setCalibration
        0 example_state LeftBtnAutobeat]
      zero_value_and_zero_code_ignored [of 1 example_djc example_setCalibration
        "example_djc LEFT_AUTO_BEAT" example_state LeftBtnAutobeat]
    by (simp add: sink_writes_def)
qed

end
